theory Spec2Isabelle
  imports Main "HOL-Library.Sublist"
begin

section \<open>TikTok video downloader API: a model of \<open>src/api/app.py\<close>\<close>

text \<open>
  The module is one FastAPI application with an endpoint \<open>download_video\<close>, a URL parser
  \<open>extract_video_id\<close> and three download methods \<open>download_v1\<close>, \<open>download_v2\<close>,
  \<open>download_v3\<close>, one per third-party site. The model below follows the source statement
  by statement:
  \<^item> a Python exception is a value of \<open>exn\<close>; a computation returns \<open>exn + 'a\<close> together with
    the trace of what it did, so each \<open>raise\<close>, each \<open>try\<close>/\<open>except\<close> and each early
    \<open>return\<close> is a branch;
  \<^item> the trace records every HTTP request that is issued and every entry into a download
    method (the \<open>print\<close> calls of the source write only to standard output and are left out);
  \<^item> whatever the network, the HTML selector engine and the JSON parser answer is a
    parameter (\<open>world\<close>): theorems hold for every such answer;
  \<^item> a global name is looked up in the module's namespace when the statement that uses it
    runs, as Python does; a name that is not bound raises \<open>NameError\<close>.
  Strings are lists of 8-bit characters: a text of the model is a Python \<open>str\<close> all of
  whose characters lie below U+0100. On such a text the pattern class \<open>\d\<close> of Python's
  \<open>re\<close> is exactly \<open>0-9\<close>, since no other character below U+0100 is a decimal digit
  of Unicode. A URL that holds a character from U+0100 up (a digit of another script,
  for one, which \<open>\d\<close> would match) is outside the model, and what is proved of
  \<open>extract_video_id\<close> is proved of the URLs inside it.
\<close>

subsection \<open>Exceptions, traces and computations\<close>

datatype exn =
    NameError string
  | HTTPException int string
  | OtherException string

datatype event =
    Invoke string
  | HttpGet string
  | HttpPost string "(string \<times> string) list"

type_synonym 'a comp = "event list \<Rightarrow> (exn + 'a) \<times> event list"

definition ret :: "'a \<Rightarrow> 'a comp" where
  "ret x = (\<lambda>tr. (Inr x, tr))"

definition raise :: "exn \<Rightarrow> 'a comp" where
  "raise e = (\<lambda>tr. (Inl e, tr))"

definition bnd :: "'a comp \<Rightarrow> ('a \<Rightarrow> 'b comp) \<Rightarrow> 'b comp" where
  "bnd m f = (\<lambda>tr. case m tr of (Inl e, tr') \<Rightarrow> (Inl e, tr') | (Inr x, tr') \<Rightarrow> f x tr')"

definition thn :: "unit comp \<Rightarrow> 'b comp \<Rightarrow> 'b comp" where
  "thn m k = bnd m (\<lambda>_. k)"

text \<open>\<open>try: m except Exception as e: h e\<close>. An exception raised by the handler itself
  leaves the statement.\<close>

definition try_except :: "'a comp \<Rightarrow> (exn \<Rightarrow> 'a comp) \<Rightarrow> 'a comp" where
  "try_except m h = (\<lambda>tr. case m tr of (Inl e, tr') \<Rightarrow> h e tr' | (Inr x, tr') \<Rightarrow> (Inr x, tr'))"

definition enter :: "string \<Rightarrow> unit comp" where
  "enter name = (\<lambda>tr. (Inr (), tr @ [Invoke name]))"

subsection \<open>The module namespace and \<open>logger\<close>\<close>

type_synonym globals = "string list"

text \<open>The names the module binds at top level, in the order of lines 1 to 365: the
  imports, \<open>app\<close>, \<open>API_KEY\<close>, \<open>api_key_header\<close>, \<open>get_api_key\<close>, \<open>headers\<close> and
  the five functions. Python's builtins hold no \<open>logger\<close> either.\<close>

definition module_globals :: globals where
  "module_globals =
    [''FastAPI'', ''HTTPException'', ''Query'', ''Security'', ''Depends'',
     ''StreamingResponse'', ''APIKeyHeader'', ''requests'', ''Selector'', ''re'', ''io'',
     ''os'', ''uuid'', ''traceback'', ''load_dotenv'', ''app'', ''API_KEY'',
     ''api_key_header'', ''get_api_key'', ''headers'', ''download_video'',
     ''extract_video_id'', ''download_v1'', ''download_v2'', ''download_v3'']"

text \<open>\<open>logger.debug(...)\<close>, \<open>logger.warning(...)\<close>, \<open>logger.error(...)\<close>: Python loads the
  name \<open>logger\<close> before it evaluates the argument, so an unbound name raises
  \<open>NameError\<close> and nothing else happens. Where the name is bound it is taken to be a
  \<open>logging.Logger\<close>, whose methods return \<open>None\<close>.\<close>

definition logger :: "globals \<Rightarrow> string \<Rightarrow> unit comp" where
  "logger g level = (if ''logger'' \<in> set g then ret () else raise (NameError ''logger''))"

subsection \<open>Responses and the outside world\<close>

record response =
  status_code :: int
  final_url :: string
  body_text :: string
  content :: string
  headers :: "(string \<times> string) list"

datatype json =
    JNull
  | JBool bool
  | JNum int
  | JStr string
  | JArr "json list"
  | JObj "(string \<times> json) list"

text \<open>\<open>respond\<close> answers a request, given everything done before it (a session keeps
  cookies, a site may answer differently each time), or raises a transport error.
  \<open>css\<close> and \<open>xpath\<close> are parsel's \<open>Selector(text).css(q).getall()\<close> and
  \<open>.xpath(q).getall()\<close>; \<open>json_loads\<close> is \<open>response.json()\<close>.\<close>

record world =
  respond :: "event list \<Rightarrow> event \<Rightarrow> exn + response"
  css :: "string \<Rightarrow> string \<Rightarrow> string list"
  xpath :: "string \<Rightarrow> string \<Rightarrow> string list"
  json_loads :: "string \<Rightarrow> exn + json"

definition request :: "world \<Rightarrow> event \<Rightarrow> response comp" where
  "request w rq = (\<lambda>tr. (respond w tr rq, tr @ [rq]))"

text \<open>\<open>.get()\<close> of a selector list: the first match or \<open>None\<close>.\<close>

fun get_first :: "string list \<Rightarrow> string option" where
  "get_first [] = None"
| "get_first (x # xs) = Some x"

text \<open>Python truth of an optional string: \<open>None\<close> and \<open>""\<close> are false.\<close>

fun truthy :: "string option \<Rightarrow> bool" where
  "truthy None = False"
| "truthy (Some s) = (s \<noteq> [])"

text \<open>\<open>not x\<close>.\<close>

definition py_not :: "string option \<Rightarrow> bool" where
  "py_not x = (\<not> truthy x)"

fun json_truthy :: "json option \<Rightarrow> bool" where
  "json_truthy None = False"
| "json_truthy (Some JNull) = False"
| "json_truthy (Some (JBool b)) = b"
| "json_truthy (Some (JNum n)) = (n \<noteq> 0)"
| "json_truthy (Some (JStr s)) = (s \<noteq> [])"
| "json_truthy (Some (JArr xs)) = (xs \<noteq> [])"
| "json_truthy (Some (JObj kvs)) = (kvs \<noteq> [])"

text \<open>\<open>response_json.get("data")\<close>: only a JSON object has \<open>get\<close>; a repeated key keeps
  its last value.\<close>

fun json_get :: "json \<Rightarrow> string \<Rightarrow> exn + json option" where
  "json_get (JObj kvs) k = Inr (map_of (rev kvs) k)"
| "json_get _ k = Inl (OtherException ''AttributeError'')"

definition headers_get :: "(string \<times> string) list \<Rightarrow> string \<Rightarrow> string \<Rightarrow> string" where
  "headers_get hs k d = (case map_of hs k of Some v \<Rightarrow> v | None \<Rightarrow> d)"

text \<open>A dict literal: a key written twice keeps its first place and its last value.\<close>

fun dict_set :: "(string \<times> string) list \<Rightarrow> string \<Rightarrow> string \<Rightarrow> (string \<times> string) list" where
  "dict_set [] k v = [(k, v)]"
| "dict_set ((k', v') # d) k v = (if k' = k then (k, v) # d else (k', v') # dict_set d k v)"

definition dict_literal :: "(string \<times> string) list \<Rightarrow> (string \<times> string) list" where
  "dict_literal kvs = foldl (\<lambda>d (k, v). dict_set d k v) [] kvs"

subsection \<open>Strings: \<open>in\<close>, \<open>str\<close> and the three patterns\<close>

fun substring_in :: "string \<Rightarrow> string \<Rightarrow> bool" where
  "substring_in p [] = (p = [])"
| "substring_in p (c # cs) = (prefix p (c # cs) \<or> substring_in p cs)"

definition digit_char :: "nat \<Rightarrow> char" where
  "digit_char d = (''0123456789'' ! d)"

fun str_nat :: "nat \<Rightarrow> string" where
  "str_nat n = (if n < 10 then [digit_char n] else str_nat (n div 10) @ [digit_char (n mod 10)])"

declare str_nat.simps [simp del]

definition str_int :: "int \<Rightarrow> string" where
  "str_int i = (if i < 0 then CHR ''-'' # str_nat (nat (- i)) else str_nat (nat i))"

text \<open>\<open>str(e)\<close>; Starlette prints an \<open>HTTPException\<close> as \<open>status: detail\<close>.\<close>

fun str_exn :: "exn \<Rightarrow> string" where
  "str_exn (NameError n) = ''name '' @ [CHR 0x27] @ n @ [CHR 0x27] @ '' is not defined''"
| "str_exn (HTTPException c d) = str_int c @ '': '' @ d"
| "str_exn (OtherException m) = m"

text \<open>The class \<open>\d\<close> on characters below U+0100: the ten digits \<open>0-9\<close>. (On a Python
  \<open>str\<close> the class holds every decimal digit of Unicode; all others lie at U+0660 and
  above, outside the characters of this model.)\<close>

definition is_digit :: "char \<Rightarrow> bool" where
  "is_digit c = (c \<in> set ''0123456789'')"

text \<open>The class \<open>[A-Za-z0-9_.]\<close>.\<close>

definition is_handle_char :: "char \<Rightarrow> bool" where
  "is_handle_char c =
     (c \<in> set ''ABCDEFGHIJKLMNOPQRSTUVWXYZabcdefghijklmnopqrstuvwxyz'' \<or> is_digit c
      \<or> c = CHR ''_'' \<or> c = CHR ''.'')"

text \<open>\<open>re.search(r"@([A-Za-z0-9_.]+)", url)\<close>: the leftmost \<open>@\<close> that a handle character
  follows, with the longest run of handle characters after it. The result is
  \<open>group(0)\<close>, the match with its \<open>@\<close>.\<close>

fun username_search :: "string \<Rightarrow> string option" where
  "username_search [] = None"
| "username_search (c # cs) =
     (if c = CHR ''@'' \<and> takeWhile is_handle_char cs \<noteq> []
      then Some (c # takeWhile is_handle_char cs)
      else username_search cs)"

text \<open>A literal at the start of a string: what follows it, or \<open>None\<close>.\<close>

fun strip_prefix :: "string \<Rightarrow> string \<Rightarrow> string option" where
  "strip_prefix [] s = Some s"
| "strip_prefix (p # ps) [] = None"
| "strip_prefix (p # ps) (c # cs) = (if p = c then strip_prefix ps cs else None)"

text \<open>\<open>r"/(video|photo)/(\d+)"\<close> tried at the start of a string: \<open>(group(1), group(2))\<close>.\<close>

definition content_type_at :: "string \<Rightarrow> (string \<times> string) option" where
  "content_type_at s =
     (case strip_prefix ''/video/'' s of
        Some r \<Rightarrow> (if takeWhile is_digit r = [] then None else Some (''video'', takeWhile is_digit r))
      | None \<Rightarrow>
          (case strip_prefix ''/photo/'' s of
             Some r \<Rightarrow> (if takeWhile is_digit r = [] then None else Some (''photo'', takeWhile is_digit r))
           | None \<Rightarrow> None))"

fun content_type_search :: "string \<Rightarrow> (string \<times> string) option" where
  "content_type_search [] = None"
| "content_type_search (c # cs) =
     (case content_type_at (c # cs) of
        Some r \<Rightarrow> Some r
      | None \<Rightarrow> content_type_search cs)"

text \<open>\<open>re.search(r"[/=](\d{15,})", url)\<close>: the leftmost \<open>/\<close> or \<open>=\<close> that at least 15 digits
  follow; \<open>group(1)\<close> is the whole run of digits after it.\<close>

fun alt_video_id_search :: "string \<Rightarrow> string option" where
  "alt_video_id_search [] = None"
| "alt_video_id_search (c # cs) =
     (if (c = CHR ''/'' \<or> c = CHR ''='') \<and> 15 \<le> length (takeWhile is_digit cs)
      then Some (takeWhile is_digit cs)
      else alt_video_id_search cs)"

subsection \<open>\<open>extract_video_id\<close> (lines 80 to 136)\<close>

text \<open>Lines 84 to 93: a URL that names a short-link host is replaced by the URL the
  redirects end at.\<close>

definition follow_redirect :: "globals \<Rightarrow> world \<Rightarrow> string \<Rightarrow> string comp" where
  "follow_redirect g w url =
     (if substring_in ''vm.tiktok.com'' url \<or> substring_in ''vt.tiktok.com'' url
      then try_except
             (bnd (request w (HttpGet url)) (\<lambda>response. ret (final_url response)))
             (\<lambda>e. thn (logger g ''error'')
                    (raise (HTTPException 400 (''Failed to follow redirect: '' @ str_exn e))))
      else ret url)"

text \<open>Lines 95 to 136: the patterns, on the URL that \<open>follow_redirect\<close> left. The first
  \<open>bnd\<close> is the \<open>if\<close> of line 103, which either returns (\<open>Some\<close>) or falls through.\<close>

definition match_patterns :: "globals \<Rightarrow> string \<Rightarrow> (string \<times> string \<times> string) comp" where
  "match_patterns g url =
     (let username_match = username_search url;
          content_type_match = content_type_search url
      in
      bnd (if username_match = None \<or> content_type_match = None
           then thn (logger g ''warning'')
                  (case alt_video_id_search url of
                     Some video_id \<Rightarrow>
                       bnd (case username_match of
                              Some username \<Rightarrow> ret username
                            | None \<Rightarrow> thn (logger g ''warning'') (ret ''@user''))
                           (\<lambda>username. ret (Some (username, video_id, ''video'')))
                   | None \<Rightarrow> ret None)
           else ret None)
      (\<lambda>returned.
         case returned of
           Some r \<Rightarrow> ret r
         | None \<Rightarrow>
             (case username_match of
                None \<Rightarrow>
                  thn (logger g ''error'')
                    (raise (HTTPException 400 ''Could not extract username from URL''))
              | Some username \<Rightarrow>
                  (case content_type_match of
                     None \<Rightarrow>
                       thn (logger g ''error'')
                         (raise (HTTPException 400 ''Could not extract video ID from URL''))
                   | Some (content_type, video_id) \<Rightarrow>
                       ret (username, video_id, content_type)))))"

definition extract_video_id :: "globals \<Rightarrow> world \<Rightarrow> string \<Rightarrow> (string \<times> string \<times> string) comp" where
  "extract_video_id g w url = bnd (follow_redirect g w url) (match_patterns g)"

subsection \<open>The three download methods (lines 138 to 478)\<close>

record streaming_response =
  body :: string
  media_type :: string
  response_headers :: "(string \<times> string) list"

text \<open>\<open>if b: m\<close> with no \<open>else\<close>.\<close>

definition py_if :: "bool \<Rightarrow> unit comp \<Rightarrow> unit comp" where
  "py_if b m = (if b then m else ret ())"

text \<open>A call that returns or raises without touching the trace.\<close>

definition lift :: "exn + 'a \<Rightarrow> 'a comp" where
  "lift r = (\<lambda>tr. (r, tr))"

text \<open>The value of a variable already tested for truth.\<close>

fun opt_str :: "string option \<Rightarrow> string" where
  "opt_str None = []"
| "opt_str (Some s) = s"

text \<open>\<open>isinstance(e, HTTPException)\<close>.\<close>

fun is_http :: "exn \<Rightarrow> bool" where
  "is_http (HTTPException c d) = True"
| "is_http _ = False"

text \<open>\<open>download_links[0]\<close>.\<close>

fun index0 :: "string list \<Rightarrow> string comp" where
  "index0 [] = raise (OtherException ''IndexError'')"
| "index0 (x # xs) = ret x"

text \<open>The \<open>except Exception as e\<close> clause that closes each download method; \<open>v\<close> is
  \<open>v1\<close>, \<open>v2\<close> or \<open>v3\<close>.\<close>

definition method_handler :: "globals \<Rightarrow> string \<Rightarrow> exn \<Rightarrow> streaming_response comp" where
  "method_handler g v e =
     (if is_http e
      then thn (logger g ''error'') (raise e)
      else thn (logger g ''error'')
          (thn (logger g ''debug'')
          (raise (HTTPException 500 (''Error downloading video ('' @ v @ ''): '' @ str_exn e)))))"

text \<open>The check of the declared media type of the fetched file: a warning, nothing more.\<close>

definition check_media :: "globals \<Rightarrow> response \<Rightarrow> unit comp" where
  "check_media g r =
     (let content_type = headers_get (headers r) ''Content-Type'' [] in
      py_if (\<not> substring_in ''video'' content_type \<and> \<not> substring_in ''octet-stream'' content_type)
        (thn (logger g ''warning'') (logger g ''debug'')))"

definition download_v1 :: "globals \<Rightarrow> world \<Rightarrow> string \<Rightarrow> streaming_response comp" where
  \<open>download_v1 g w url =
   thn (enter ''download_v1'')
   (try_except
     (bnd (extract_video_id g w url) (\<lambda>(username, video_id, content_type).
      thn (py_if (content_type \<noteq> ''video'')
            (thn (logger g ''warning'')
                 (raise (HTTPException 400 ''Only video downloads are supported''))))
     (thn (logger g ''debug'')
     (bnd (request w (HttpGet ''https://tmate.cc/'')) (\<lambda>response.
      thn (py_if (status_code response \<noteq> 200)
            (thn (logger g ''error'')
                 (raise (HTTPException (status_code response)
                    (''tmate.cc initial request failed with status ''
                       @ str_int (status_code response))))))
     (let token = get_first (css w ''input[name="token"]::attr(value)'' (body_text response)) in
      thn (py_if (py_not token)
            (thn (logger g ''error'')
                 (raise (HTTPException 500 ''Could not retrieve token from tmate.cc''))))
     (thn (logger g ''debug'')
     (thn (logger g ''debug'')
     (bnd (request w (HttpPost ''https://tmate.cc/action''
             (dict_literal [(''url'', url), (''token'', opt_str token)]))) (\<lambda>response.
      thn (py_if (status_code response \<noteq> 200)
            (thn (logger g ''error'')
                 (raise (HTTPException (status_code response)
                    (''tmate.cc action request failed with status ''
                       @ str_int (status_code response))))))
     (bnd (try_except (lift (json_loads w (body_text response)))
            (\<lambda>e. thn (logger g ''error'')
                 (thn (logger g ''debug'')
                 (raise (HTTPException 500
                    (''Invalid JSON response from tmate.cc: '' @ str_exn e))))))
        (\<lambda>response_json.
      bnd (lift (json_get response_json ''data'')) (\<lambda>response_data.
      thn (py_if (\<not> json_truthy response_data)
            (thn (logger g ''error'')
            (thn (logger g ''debug'')
                 (raise (HTTPException 500 ''Invalid response from tmate.cc (no data field)'')))))
     (bnd (case response_data of
             Some (JStr s) \<Rightarrow> ret s
           | _ \<Rightarrow> raise (OtherException ''TypeError'')) (\<lambda>document.
      let download_links =
            css w ''.downtmate-right.is-desktop-only.right a::attr(href)'' document in
      thn (py_if (download_links = [] \<or> length download_links < 1)
            (thn (logger g ''error'')
            (thn (logger g ''debug'')
                 (raise (HTTPException 500 ''Could not find download link'')))))
     (bnd (index0 download_links) (\<lambda>download_link.
      thn (logger g ''debug'')
     (thn (logger g ''debug'')
     (bnd (request w (HttpGet download_link)) (\<lambda>video_response.
      thn (py_if (status_code video_response \<noteq> 200)
            (thn (logger g ''error'')
                 (raise (HTTPException (status_code video_response)
                    (''Failed to download video from tmate.cc with status ''
                       @ str_int (status_code video_response))))))
     (thn (check_media g video_response)
     (thn (logger g ''debug'')
     (ret \<lparr> body = content video_response,
            media_type = ''video/mp4'',
            response_headers =
              [(''Content-Disposition'', ''attachment; filename="tiktok_'' @ video_id @ ''.mp4"''),
               (''Content-Length'', str_nat (length (content response))),
               (''Accept-Ranges'', ''bytes'')] \<rparr>)))))))))))))))))))))))
     (method_handler g ''v1''))\<close>

text \<open>The \<open>for selector_path in selectors_to_try\<close> loop of \<open>download_v2\<close>:
  \<open>download_link\<close> is assigned in every round, and the loop breaks at the first
  true value.\<close>

fun try_selectors :: "globals \<Rightarrow> world \<Rightarrow> string \<Rightarrow> string list \<Rightarrow> string option \<Rightarrow> string option comp" where
  "try_selectors g w document [] download_link = ret download_link"
| "try_selectors g w document (selector_path # rest) download_link =
     (if truthy (get_first (xpath w selector_path document))
      then thn (logger g ''debug'') (ret (get_first (xpath w selector_path document)))
      else try_selectors g w document rest (get_first (xpath w selector_path document)))"

definition selectors_to_try :: "string list" where
  \<open>selectors_to_try =
     [''/html/body/div[2]/div/div[2]/div[2]/a[1]/@href'',
      ''//div[contains(@class, "row")]//a[contains(text(), "Download")]/@href'',
      ''//a[contains(@href, ".mp4")]/@href'']\<close>

definition download_v2 :: "globals \<Rightarrow> world \<Rightarrow> string \<Rightarrow> streaming_response comp" where
  \<open>download_v2 g w url =
   thn (enter ''download_v2'')
   (try_except
     (bnd (extract_video_id g w url) (\<lambda>(username, video_id, content_type).
      thn (py_if (content_type \<noteq> ''video'')
            (thn (logger g ''warning'')
                 (raise (HTTPException 400 ''Only video downloads are supported''))))
     (thn (logger g ''debug'')
     (bnd (request w (HttpGet ''https://musicaldown.com/en'')) (\<lambda>r.
      thn (py_if (status_code r \<noteq> 200)
            (thn (logger g ''error'')
                 (raise (HTTPException (status_code r)
                    (''musicaldown.com initial request failed with status ''
                       @ str_int (status_code r))))))
     (let token_a = get_first (xpath w ''//*[@id="link_url"]/@name'' (body_text r));
          token_b = get_first
            (xpath w ''//*[@id="submit-form"]/div/div[1]/input[2]/@name'' (body_text r));
          token_b_value = get_first
            (xpath w ''//*[@id="submit-form"]/div/div[1]/input[2]/@value'' (body_text r)) in
      thn (py_if (py_not token_a \<or> py_not token_b \<or> py_not token_b_value)
            (thn (logger g ''error'')
            (thn (logger g ''debug'')
                 (raise (HTTPException 500 ''Could not retrieve tokens from musicaldown.com'')))))
     (thn (logger g ''debug'')
     (thn (logger g ''debug'')
     (bnd (request w (HttpPost ''https://musicaldown.com/download''
             (dict_literal [(opt_str token_a, url), (opt_str token_b, opt_str token_b_value),
                            (''verify'', ''1'')]))) (\<lambda>response.
      thn (py_if (status_code response \<noteq> 200)
            (thn (logger g ''error'')
                 (raise (HTTPException (status_code response)
                    (''musicaldown.com download request failed with status ''
                       @ str_int (status_code response))))))
     (bnd (try_selectors g w (body_text response) selectors_to_try None) (\<lambda>download_link.
      thn (py_if (py_not download_link)
            (thn (logger g ''error'')
            (thn (logger g ''debug'')
                 (raise (HTTPException 500 ''Could not find download link'')))))
     (thn (logger g ''debug'')
     (bnd (request w (HttpGet (opt_str download_link))) (\<lambda>response.
      thn (py_if (status_code response \<noteq> 200)
            (thn (logger g ''error'')
                 (raise (HTTPException (status_code response)
                    (''Failed to download video from musicaldown.com with status ''
                       @ str_int (status_code response))))))
     (thn (check_media g response)
     (thn (logger g ''debug'')
     (ret \<lparr> body = content response,
            media_type = ''video/mp4'',
            response_headers =
              [(''Content-Disposition'',
                ''attachment; filename="tiktok_'' @ video_id @ ''.mp4"'')] \<rparr>))))))))))))))))))
     (method_handler g ''v2''))\<close>

definition download_v3 :: "globals \<Rightarrow> world \<Rightarrow> string \<Rightarrow> streaming_response comp" where
  \<open>download_v3 g w url =
   thn (enter ''download_v3'')
   (try_except
     (bnd (extract_video_id g w url) (\<lambda>(username, video_id, content_type).
      thn (py_if (content_type \<noteq> ''video'')
            (thn (logger g ''warning'')
                 (raise (HTTPException 400 ''Only video downloads are supported''))))
     (thn (logger g ''debug'')
     (bnd (request w (HttpGet ''https://tiktokio.com/'')) (\<lambda>r.
      thn (py_if (status_code r \<noteq> 200)
            (thn (logger g ''error'')
                 (raise (HTTPException (status_code r)
                    (''tiktokio.com initial request failed with status ''
                       @ str_int (status_code r))))))
     (let prefix = get_first (css w ''input[name="prefix"]::attr(value)'' (body_text r)) in
      thn (py_if (py_not prefix)
            (thn (logger g ''error'')
            (thn (logger g ''debug'')
                 (raise (HTTPException 500 ''Could not retrieve prefix from tiktokio.com'')))))
     (thn (logger g ''debug'')
     (thn (logger g ''debug'')
     (bnd (request w (HttpPost ''https://tiktokio.com/api/v1/tk-htmx''
             (dict_literal [(''prefix'', opt_str prefix), (''vid'', url)]))) (\<lambda>response.
      thn (py_if (status_code response \<noteq> 200)
            (thn (logger g ''error'')
                 (raise (HTTPException (status_code response)
                    (''tiktokio.com API request failed with status ''
                       @ str_int (status_code response))))))
     (thn (logger g ''debug'')
     (bnd (let download_links = css w ''div.tk-down-link a::attr(href)'' (body_text response) in
           if download_links = [] \<or> length download_links < 1
           then thn (logger g ''error'')
                  (let download_links = css w ''a[href*=".mp4"]::attr(href)'' (body_text response) in
                   thn (py_if (download_links = [] \<or> length download_links < 1)
                         (thn (logger g ''error'')
                         (thn (logger g ''debug'')
                              (raise (HTTPException 500 ''Could not find download link'')))))
                       (ret download_links))
           else ret download_links) (\<lambda>download_links.
      bnd (index0 download_links) (\<lambda>download_link.
      thn (logger g ''debug'')
     (thn (logger g ''debug'')
     (bnd (request w (HttpGet download_link)) (\<lambda>response.
      thn (py_if (status_code response \<noteq> 200)
            (thn (logger g ''error'')
                 (raise (HTTPException (status_code response)
                    (''Failed to download video from tiktokio.com with status ''
                       @ str_int (status_code response))))))
     (thn (check_media g response)
     (thn (logger g ''debug'')
     (ret \<lparr> body = content response,
            media_type = ''video/mp4'',
            response_headers =
              [(''Content-Disposition'',
                ''attachment; filename="tiktok_'' @ video_id @ ''.mp4"'')] \<rparr>))))))))))))))))))))
     (method_handler g ''v3''))\<close>

subsection \<open>The endpoint \<open>download_video\<close> (lines 51 to 78)\<close>

text \<open>The \<open>for method in methods\<close> loop. Its value is \<open>Inl r\<close> when a method returned \<open>r\<close>
  (the \<open>return\<close> inside the \<open>try\<close>), and \<open>Inr last_error\<close> when the loop ran to its end.\<close>

fun for_methods ::
  "globals \<Rightarrow> string \<Rightarrow> (string \<Rightarrow> streaming_response comp) list \<Rightarrow> exn option
     \<Rightarrow> (streaming_response + exn option) comp" where
  "for_methods g url [] last_error = ret (Inr last_error)"
| "for_methods g url (method # methods) last_error =
     bnd (try_except
            (bnd (method url) (\<lambda>r. ret (Inl r)))
            (\<lambda>e. thn (logger g ''warning'') (ret (Inr (Some e)))))
       (\<lambda>x. case x of
               Inl r \<Rightarrow> ret (Inl r)
             | Inr last_error \<Rightarrow> for_methods g url methods last_error)"

fun str_opt_exn :: "exn option \<Rightarrow> string" where
  "str_opt_exn None = ''None''"
| "str_opt_exn (Some e) = str_exn e"

definition methods :: "globals \<Rightarrow> world \<Rightarrow> (string \<Rightarrow> streaming_response comp) list" where
  "methods g w = [download_v2 g w, download_v3 g w, download_v1 g w]"

definition download_video :: "globals \<Rightarrow> world \<Rightarrow> string \<Rightarrow> streaming_response comp" where
  "download_video g w url =
     bnd (for_methods g url (methods g w) None)
       (\<lambda>x. case x of
               Inl r \<Rightarrow> ret r
             | Inr last_error \<Rightarrow>
                 thn (logger g ''error'')
                   (case last_error of
                      Some (HTTPException c d) \<Rightarrow> raise (HTTPException c d)
                    | _ \<Rightarrow>
                        (let error_details =
                               ''All download methods failed. Last error: ''
                                 @ str_opt_exn last_error in
                         thn (logger g ''error'')
                        (thn (logger g ''debug'')
                        (raise (HTTPException 500 error_details))))))"

subsection \<open>Reading a trace\<close>

text \<open>The download methods entered, in order.\<close>

fun invoked :: "event list \<Rightarrow> string list" where
  "invoked [] = []"
| "invoked (Invoke name # tr) = name # invoked tr"
| "invoked (HttpGet u # tr) = invoked tr"
| "invoked (HttpPost u d # tr) = invoked tr"

text \<open>A computation that adds to the trace, and adds HTTP requests only.\<close>

definition only_requests :: "'a comp \<Rightarrow> bool" where
  "only_requests m = (\<forall>tr. \<exists>evs. snd (m tr) = tr @ evs \<and> invoked evs = [])"

text \<open>A computation whose every returned value satisfies \<open>P\<close>.\<close>

definition returns_only :: "'a comp \<Rightarrow> ('a \<Rightarrow> bool) \<Rightarrow> bool" where
  "returns_only m P = (\<forall>tr. case fst (m tr) of Inl e \<Rightarrow> True | Inr x \<Rightarrow> P x)"

subsection \<open>Concrete inputs\<close>

text \<open>The module with a logger added to it, as
  \<open>logger = logging.getLogger(__name__)\<close> would.\<close>

definition globals_with_logger :: globals where
  "globals_with_logger = module_globals @ [''logger'']"

definition url_video :: string where
  "url_video = ''https://www.tiktok.com/@someuser/video/7123456789012345678''"

definition url_short :: string where
  "url_short = ''https://vm.tiktok.com/ZMabc123/''"

definition url_photo :: string where
  "url_photo = ''https://www.tiktok.com/@someuser/photo/7123456789012345678''"

definition url_photo_no_handle :: string where
  "url_photo_no_handle = ''https://www.tiktok.com/photo/7123456789012345678''"

definition url_video_no_handle :: string where
  "url_video_no_handle = ''https://www.tiktok.com/video/7123456789012345678''"

definition url_short_id :: string where
  "url_short_id = ''https://www.tiktok.com/video/123''"

definition url_item_id :: string where
  "url_item_id = ''https://www.tiktok.com/share?item_id=7123456789012345678''"

definition url_bare_digits :: string where
  "url_bare_digits = ''https://www.tiktok.com/v7123456789012345678''"

definition url_userinfo :: string where
  "url_userinfo = ''https://guest@www.tiktok.com/@someuser/video/7123456789012345678''"

definition url_two_paths :: string where
  "url_two_paths = ''https://www.tiktok.com/photo/1/@someuser/video/7123456789012345678''"

definition page :: "int \<Rightarrow> string \<Rightarrow> string \<Rightarrow> response" where
  "page code u t =
     \<lparr> status_code = code, final_url = u, body_text = t, content = [], headers = [] \<rparr>"

text \<open>A world in which the three landing pages answer with the given status codes (in
  the order \<open>download_video\<close> tries the sites) and nothing else is reachable.\<close>

definition world_status :: "int \<Rightarrow> int \<Rightarrow> int \<Rightarrow> world" where
  "world_status a b c =
     \<lparr> respond = (\<lambda>tr rq.
         case rq of
           HttpGet u \<Rightarrow>
             (if u = ''https://musicaldown.com/en'' then Inr (page a u [])
              else if u = ''https://tiktokio.com/'' then Inr (page b u [])
              else if u = ''https://tmate.cc/'' then Inr (page c u [])
              else Inl (OtherException ''ConnectionError''))
         | HttpPost u d \<Rightarrow> Inl (OtherException ''ConnectionError'')
         | Invoke n \<Rightarrow> Inl (OtherException ''ConnectionError'')),
       css = (\<lambda>q t. []),
       xpath = (\<lambda>q t. []),
       json_loads = (\<lambda>t. Inl (OtherException ''JSONDecodeError'')) \<rparr>"

definition media_link :: string where
  "media_link = ''https://cdn.example/video.mp4''"

text \<open>A world in which the three sites work: each landing page holds its tokens, each
  form answers with a result page that links the file, and the short link redirects to
  \<open>url_video\<close>. With \<open>drift\<close> the result pages have changed their markup: the
  site-specific selectors find nothing, and only the selectors for any link to an
  \<open>.mp4\<close> still match.\<close>

definition world_sites :: "bool \<Rightarrow> world" where
  \<open>world_sites drift =
     \<lparr> respond = (\<lambda>tr rq.
         case rq of
           HttpGet u \<Rightarrow>
             (if u = url_short then Inr (page 200 url_video [])
              else if u = ''https://musicaldown.com/en'' \<or> u = ''https://tiktokio.com/''
                      \<or> u = ''https://tmate.cc/''
              then Inr (page 200 u ''landing'')
              else if u = media_link
              then Inr \<lparr> status_code = 200, final_url = u, body_text = [],
                         content = ''MP4DATA'',
                         headers = [(''Content-Type'', ''video/mp4'')] \<rparr>
              else Inl (OtherException ''ConnectionError''))
         | HttpPost u d \<Rightarrow> Inr (page 200 u ''result'')
         | Invoke n \<Rightarrow> Inl (OtherException ''ConnectionError'')),
       css = (\<lambda>q t.
         if t = ''landing'' \<and> q = ''input[name="token"]::attr(value)'' then [''tok'']
         else if t = ''landing'' \<and> q = ''input[name="prefix"]::attr(value)'' then [''pre'']
         else if t = ''result'' \<and> q = ''a[href*=".mp4"]::attr(href)'' then [media_link]
         else if t = ''result'' \<and> drift then []
         else if t = ''result'' \<and> q = ''.downtmate-right.is-desktop-only.right a::attr(href)''
         then [media_link]
         else if t = ''result'' \<and> q = ''div.tk-down-link a::attr(href)'' then [media_link]
         else []),
       xpath = (\<lambda>q t.
         if t = ''landing'' \<and> q = ''//*[@id="link_url"]/@name'' then [''link'']
         else if t = ''landing'' \<and> q = ''//*[@id="submit-form"]/div/div[1]/input[2]/@name''
         then [''key'']
         else if t = ''landing'' \<and> q = ''//*[@id="submit-form"]/div/div[1]/input[2]/@value''
         then [''value'']
         else if t = ''result'' \<and> q = ''//a[contains(@href, ".mp4")]/@href'' then [media_link]
         else if t = ''result'' \<and> drift then []
         else if t = ''result'' \<and> q = ''/html/body/div[2]/div/div[2]/div[2]/a[1]/@href''
         then [media_link]
         else []),
       json_loads = (\<lambda>t. Inr (JObj [(''data'', JStr ''result'')])) \<rparr>\<close>


section \<open>Lemmas\<close>

subsection \<open>Running without a logger\<close>

lemmas comp_defs =
  ret_def raise_def bnd_def thn_def try_except_def enter_def py_if_def lift_def request_def

lemma logger_not_in_module: "''logger'' \<notin> set module_globals"
  by (simp add: module_globals_def)

lemma logger_in_globals_with_logger: "''logger'' \<in> set globals_with_logger"
  by (simp add: globals_with_logger_def)

lemma logger_unbound:
  "''logger'' \<notin> set g \<Longrightarrow> logger g l = raise (NameError ''logger'')"
  by (simp add: logger_def)

lemma logger_bound:
  "''logger'' \<in> set g \<Longrightarrow> logger g l = ret ()"
  by (simp add: logger_def)

lemma thn_logger_unbound:
  "''logger'' \<notin> set g \<Longrightarrow> thn (logger g l) k = raise (NameError ''logger'')"
  by (simp add: thn_def bnd_def logger_def raise_def)

lemma thn_logger_bound:
  "''logger'' \<in> set g \<Longrightarrow> thn (logger g l) k = k"
  by (simp add: thn_def bnd_def logger_def ret_def)

lemma method_handler_unbound:
  "''logger'' \<notin> set g \<Longrightarrow> method_handler g v e = raise (NameError ''logger'')"
  by (simp add: method_handler_def thn_logger_unbound)

lemma download_v1_unbound:
  assumes "''logger'' \<notin> set g"
  shows "fst (download_v1 g w url tr) = Inl (NameError ''logger'')"
  using assms
  by (simp add: download_v1_def thn_logger_unbound method_handler_unbound logger_unbound
      comp_defs split: prod.splits sum.splits)

lemma download_v2_unbound:
  assumes "''logger'' \<notin> set g"
  shows "fst (download_v2 g w url tr) = Inl (NameError ''logger'')"
  using assms
  by (simp add: download_v2_def thn_logger_unbound method_handler_unbound logger_unbound
      comp_defs split: prod.splits sum.splits)

lemma download_v3_unbound:
  assumes "''logger'' \<notin> set g"
  shows "fst (download_v3 g w url tr) = Inl (NameError ''logger'')"
  using assms
  by (simp add: download_v3_def thn_logger_unbound method_handler_unbound logger_unbound
      comp_defs split: prod.splits sum.splits)

text \<open>With no logger, the \<open>except\<close> clause of the loop raises in its first statement:
  whatever the first method tried does, the loop ends there.\<close>

lemma for_methods_unbound:
  assumes "''logger'' \<notin> set g" and "fst (m url tr) = Inl e"
  shows "for_methods g url (m # ms) last_error tr = (Inl (NameError ''logger''), snd (m url tr))"
  using assms
  by (cases "m url tr") (simp add: logger_unbound comp_defs)

lemma download_video_unbound:
  assumes "''logger'' \<notin> set g"
  shows "download_video g w url tr = (Inl (NameError ''logger''), snd (download_v2 g w url tr))"
proof -
  have "for_methods g url (methods g w) None tr
          = (Inl (NameError ''logger''), snd (download_v2 g w url tr))"
    unfolding methods_def
    by (rule for_methods_unbound[OF assms download_v2_unbound[OF assms]])
  then show ?thesis
    by (simp add: download_video_def bnd_def)
qed

subsection \<open>The three patterns on a URL that is cut in two\<close>

lemma takeWhile_stop: "s = [] \<or> \<not> P (hd s) \<Longrightarrow> takeWhile P (r @ s) = takeWhile P r"
  by (induction r) (auto simp: takeWhile_eq_Nil_iff)

lemma takeWhile_all: "\<forall>x\<in>set xs. P x \<Longrightarrow> ys = [] \<or> \<not> P (hd ys) \<Longrightarrow> takeWhile P (xs @ ys) = xs"
  by (induction xs) (auto simp: takeWhile_eq_Nil_iff)

lemma at_not_handle: "\<not> is_handle_char (CHR ''@'')"
  by (simp add: is_handle_char_def is_digit_def)

lemma slash_not_handle: "\<not> is_handle_char (CHR ''/'')"
  by (simp add: is_handle_char_def is_digit_def)

lemma username_search_skip:
  assumes "username_search pre = None" and "s = [] \<or> \<not> is_handle_char (hd s)"
  shows "username_search (pre @ s) = username_search s"
  using assms(1)
proof (induction pre)
  case Nil
  then show ?case by simp
next
  case (Cons a pre)
  then show ?case
    by (auto simp add: takeWhile_stop[of s is_handle_char, OF assms(2)] split: if_splits)
qed

lemma username_search_here:
  "h \<noteq> [] \<Longrightarrow> \<forall>x\<in>set h. is_handle_char x \<Longrightarrow> rest = [] \<or> \<not> is_handle_char (hd rest) \<Longrightarrow>
   username_search (CHR ''@'' # h @ rest) = Some (CHR ''@'' # h)"
  using takeWhile_all[of h is_handle_char rest] by simp

lemma strip_prefix_stop:
  "c \<notin> set p \<Longrightarrow> strip_prefix p (s @ c # t) = map_option (\<lambda>r. r @ c # t) (strip_prefix p s)"
proof (induction p s rule: strip_prefix.induct)
  case (1 s) then show ?case by simp
next
  case (2 p ps) then show ?case by auto
next
  case (3 p ps c cs) then show ?case by auto
qed

lemma content_type_at_stop:
  assumes "c \<notin> set ''/video/''" "c \<notin> set ''/photo/''" "\<not> is_digit c"
  shows "content_type_at (s @ c # t) = content_type_at s"
proof -
  have tw: "\<And>r. takeWhile is_digit (r @ c # t) = takeWhile is_digit r"
    using assms(3) by (simp add: takeWhile_stop)
  show ?thesis
    by (simp add: content_type_at_def strip_prefix_stop[OF assms(1)] strip_prefix_stop[OF assms(2)]
      tw split: option.splits)
qed

lemma content_type_at_first: "c \<noteq> CHR ''/'' \<Longrightarrow> content_type_at (c # t) = None"
  by (simp add: content_type_at_def)

lemma content_type_search_skip:
  assumes "c \<notin> set ''/video/''" "c \<notin> set ''/photo/''" "\<not> is_digit c"
    and "content_type_search pre = None" and "s = c # t"
  shows "content_type_search (pre @ s) = content_type_search s"
  using assms(4)
proof (induction pre)
  case Nil
  then show ?case by simp
next
  case (Cons a pre)
  have "content_type_at ((a # pre) @ s) = content_type_at (a # pre)"
    unfolding assms(5) by (rule content_type_at_stop[OF assms(1-3)])
  with Cons show ?case
    by (simp split: option.splits)
qed

lemma content_type_search_no_slash:
  "CHR ''/'' \<notin> set xs \<Longrightarrow> content_type_search (xs @ s) = content_type_search s"
  by (induction xs) (auto simp: content_type_at_first)

lemma content_type_here:
  "ds \<noteq> [] \<Longrightarrow> \<forall>x\<in>set ds. is_digit x \<Longrightarrow> rest = [] \<or> \<not> is_digit (hd rest) \<Longrightarrow>
   content_type_search (''/video/'' @ ds @ rest) = Some (''video'', ds)"
  using takeWhile_all[of ds is_digit rest] by (simp add: content_type_at_def)

lemma alt_search_skip:
  assumes "alt_video_id_search pre = None" and "s = [] \<or> \<not> is_digit (hd s)"
  shows "alt_video_id_search (pre @ s) = alt_video_id_search s"
  using assms(1)
proof (induction pre)
  case Nil
  then show ?case by simp
next
  case (Cons a pre)
  then show ?case
    by (auto simp add: takeWhile_stop[of s is_digit, OF assms(2)] split: if_splits)
qed

lemma alt_search_here:
  "c = CHR ''/'' \<or> c = CHR ''='' \<Longrightarrow> 15 \<le> length ds \<Longrightarrow> \<forall>x\<in>set ds. is_digit x \<Longrightarrow>
   rest = [] \<or> \<not> is_digit (hd rest) \<Longrightarrow>
   alt_video_id_search (c # ds @ rest) = Some ds"
  using takeWhile_all[of ds is_digit rest] by simp

lemma strip_prefix_Some: "strip_prefix p s = Some r \<Longrightarrow> s = p @ r"
  by (induction p s rule: strip_prefix.induct) (auto split: if_splits)

lemma content_type_at_shape:
  "content_type_at s = Some (t, ds) \<Longrightarrow>
    \<exists>r. (s = ''/video/'' @ r \<or> s = ''/photo/'' @ r) \<and> ds = takeWhile is_digit r"
  by (auto simp: content_type_at_def split: option.splits if_splits dest: strip_prefix_Some)

lemma alt_search_after_word:
  "CHR ''/'' \<notin> set p \<Longrightarrow> CHR ''='' \<notin> set p \<Longrightarrow> \<forall>x\<in>set p. \<not> is_digit x \<Longrightarrow> 15 \<le> length (takeWhile is_digit r) \<Longrightarrow>
    alt_video_id_search (p @ CHR ''/'' # r) = Some (takeWhile is_digit r)"
  by (induction p) auto

lemma content_match_gives_alt:
  "content_type_search url = Some (t, ds) \<Longrightarrow> 15 \<le> length ds \<Longrightarrow> \<exists>v. alt_video_id_search url = Some v"
proof (induction url)
  case Nil
  then show ?case by simp
next
  case (Cons a url)
  show ?case
  proof (cases "content_type_at (a # url)")
    case None
    with Cons show ?thesis by auto
  next
    case (Some r)
    with Cons.prems have "content_type_at (a # url) = Some (t, ds)" by simp
    then obtain r where r: "a # url = ''/video/'' @ r \<or> a # url = ''/photo/'' @ r" "ds = takeWhile is_digit r"
      using content_type_at_shape by blast
    have len: "15 \<le> length (takeWhile is_digit r)"
      using Cons.prems(2) r(2) by simp
    have "alt_video_id_search (''/video/'' @ r) = Some (takeWhile is_digit r)"
      using alt_search_after_word[of "''video''" r, OF _ _ _ len] by (simp add: is_digit_def)
    moreover have "alt_video_id_search (''/photo/'' @ r) = Some (takeWhile is_digit r)"
      using alt_search_after_word[of "''photo''" r, OF _ _ _ len] by (simp add: is_digit_def)
    ultimately show ?thesis using r(1) by auto
  qed
qed

subsection \<open>What a computation adds to the trace\<close>

lemma invoked_append: "invoked (xs @ ys) = invoked xs @ invoked ys"
  by (induction xs rule: invoked.induct) auto

lemma only_requestsI:
  "(\<And>tr. \<exists>evs. snd (m tr) = tr @ evs \<and> invoked evs = []) \<Longrightarrow> only_requests m"
  by (simp add: only_requests_def)

lemma only_requestsD:
  "only_requests m \<Longrightarrow> \<exists>evs. snd (m tr) = tr @ evs \<and> invoked evs = []"
  by (simp add: only_requests_def)

lemma only_requests_ret: "only_requests (ret x)"
  by (simp add: only_requests_def ret_def)

lemma only_requests_raise: "only_requests (raise e)"
  by (simp add: only_requests_def raise_def)

lemma only_requests_lift: "only_requests (lift r)"
  by (simp add: only_requests_def lift_def)

lemma only_requests_logger: "only_requests (logger g l)"
  by (simp add: logger_def only_requests_ret only_requests_raise)

lemma only_requests_get: "only_requests (request w (HttpGet u))"
  by (simp add: only_requests_def request_def)

lemma only_requests_post: "only_requests (request w (HttpPost u d))"
  by (simp add: only_requests_def request_def)

lemma only_requests_bnd:
  assumes "only_requests m" and "\<And>x. only_requests (f x)"
  shows "only_requests (bnd m f)"
proof (rule only_requestsI)
  fix tr
  obtain r tr1 where m: "m tr = (r, tr1)" by (cases "m tr")
  obtain evs where evs: "tr1 = tr @ evs" "invoked evs = []"
    using only_requestsD[OF assms(1), of tr] m by auto
  show "\<exists>evs. snd (bnd m f tr) = tr @ evs \<and> invoked evs = []"
  proof (cases r)
    case (Inl e)
    with m evs show ?thesis by (simp add: bnd_def)
  next
    case (Inr x)
    obtain evs' where "snd (f x tr1) = tr1 @ evs'" "invoked evs' = []"
      using only_requestsD[OF assms(2), of x tr1] by auto
    with m evs Inr show ?thesis by (simp add: bnd_def invoked_append)
  qed
qed

lemma only_requests_thn:
  "only_requests m \<Longrightarrow> only_requests k \<Longrightarrow> only_requests (thn m k)"
  by (simp add: thn_def only_requests_bnd)

lemma only_requests_try_except:
  assumes "only_requests m" and "\<And>e. only_requests (h e)"
  shows "only_requests (try_except m h)"
proof (rule only_requestsI)
  fix tr
  obtain r tr1 where m: "m tr = (r, tr1)" by (cases "m tr")
  obtain evs where evs: "tr1 = tr @ evs" "invoked evs = []"
    using only_requestsD[OF assms(1), of tr] m by auto
  show "\<exists>evs. snd (try_except m h tr) = tr @ evs \<and> invoked evs = []"
  proof (cases r)
    case (Inr x)
    with m evs show ?thesis by (simp add: try_except_def)
  next
    case (Inl e)
    obtain evs' where "snd (h e tr1) = tr1 @ evs'" "invoked evs' = []"
      using only_requestsD[OF assms(2), of e tr1] by auto
    with m evs Inl show ?thesis by (simp add: try_except_def invoked_append)
  qed
qed

lemma only_requests_py_if: "only_requests m \<Longrightarrow> only_requests (py_if b m)"
  by (simp add: py_if_def only_requests_ret)

lemma only_requests_index0: "only_requests (index0 xs)"
  by (cases xs) (simp_all add: only_requests_ret only_requests_raise)

lemmas only_requests_intros =
  only_requests_ret only_requests_raise only_requests_lift only_requests_logger
  only_requests_get only_requests_post only_requests_bnd only_requests_thn
  only_requests_try_except only_requests_py_if only_requests_index0

lemma only_requests_follow_redirect: "only_requests (follow_redirect g w url)"
  by (auto simp: follow_redirect_def intro!: only_requests_intros)

lemma only_requests_match_patterns: "only_requests (match_patterns g url)"
  by (auto simp: match_patterns_def Let_def intro!: only_requests_intros
      split: option.splits)

lemma only_requests_extract_video_id: "only_requests (extract_video_id g w url)"
  by (simp add: extract_video_id_def only_requests_bnd only_requests_follow_redirect
      only_requests_match_patterns)

lemma only_requests_method_handler: "only_requests (method_handler g v e)"
  by (auto simp: method_handler_def intro!: only_requests_intros)

lemma only_requests_check_media: "only_requests (check_media g r)"
  by (auto simp: check_media_def Let_def intro!: only_requests_intros)

lemma only_requests_try_selectors: "only_requests (try_selectors g w document qs link)"
  by (induction qs arbitrary: link) (auto intro!: only_requests_intros)

lemmas only_requests_more =
  only_requests_extract_video_id only_requests_method_handler only_requests_check_media
  only_requests_try_selectors

text \<open>A download method records its own entry, then requests only.\<close>

lemma entered_trace:
  assumes "only_requests m"
  shows "\<exists>evs. snd (thn (enter name) m tr) = tr @ Invoke name # evs \<and> invoked evs = []"
  using only_requestsD[OF assms, of "tr @ [Invoke name]"]
  by (auto simp: thn_def bnd_def enter_def)

lemma download_v1_trace:
  "\<exists>evs. snd (download_v1 g w url tr) = tr @ Invoke ''download_v1'' # evs \<and> invoked evs = []"
  unfolding download_v1_def
  by (rule entered_trace)
     (auto simp: Let_def intro!: only_requests_intros only_requests_more
       split: option.splits json.splits)

lemma download_v2_trace:
  "\<exists>evs. snd (download_v2 g w url tr) = tr @ Invoke ''download_v2'' # evs \<and> invoked evs = []"
  unfolding download_v2_def
  by (rule entered_trace)
     (auto simp: Let_def intro!: only_requests_intros only_requests_more)

lemma download_v3_trace:
  "\<exists>evs. snd (download_v3 g w url tr) = tr @ Invoke ''download_v3'' # evs \<and> invoked evs = []"
  unfolding download_v3_def
  by (rule entered_trace)
     (auto simp: Let_def intro!: only_requests_intros only_requests_more)

subsection \<open>The five outcomes of \<open>match_patterns\<close>\<close>

lemma match_primary:
  assumes "username_search url = Some username"
    and "content_type_search url = Some (content_type, video_id)"
  shows "match_patterns g url tr = (Inr (username, video_id, content_type), tr)"
  using assms by (simp add: match_patterns_def comp_defs)

lemma match_unbound:
  assumes "''logger'' \<notin> set g"
    and "username_search url = None \<or> content_type_search url = None"
  shows "match_patterns g url tr = (Inl (NameError ''logger''), tr)"
  using assms by (auto simp: match_patterns_def logger_unbound comp_defs)

lemma match_fallback:
  assumes "''logger'' \<in> set g"
    and "username_search url = None \<or> content_type_search url = None"
    and "alt_video_id_search url = Some video_id"
  shows "match_patterns g url tr
           = (Inr (case username_search url of Some u \<Rightarrow> u | None \<Rightarrow> ''@user'',
                   video_id, ''video''), tr)"
  using assms by (auto simp: match_patterns_def logger_bound comp_defs split: option.splits)

lemma match_no_username:
  assumes "''logger'' \<in> set g"
    and "username_search url = None" and "alt_video_id_search url = None"
  shows "match_patterns g url tr
           = (Inl (HTTPException 400 ''Could not extract username from URL''), tr)"
  using assms by (simp add: match_patterns_def logger_bound comp_defs)

lemma match_no_content:
  assumes "''logger'' \<in> set g"
    and "username_search url = Some username"
    and "content_type_search url = None" and "alt_video_id_search url = None"
  shows "match_patterns g url tr
           = (Inl (HTTPException 400 ''Could not extract video ID from URL''), tr)"
  using assms by (simp add: match_patterns_def logger_bound comp_defs)

lemma extract_after_redirect:
  "follow_redirect g w url0 tr = (Inr url, tr') \<Longrightarrow>
   extract_video_id g w url0 tr = match_patterns g url tr'"
  by (simp add: extract_video_id_def bnd_def)

lemma follow_redirect_plain:
  "\<not> substring_in ''vm.tiktok.com'' url \<Longrightarrow> \<not> substring_in ''vt.tiktok.com'' url \<Longrightarrow>
   follow_redirect g w url tr = (Inr url, tr)"
  by (simp add: follow_redirect_def ret_def)

subsection \<open>The patterns on the concrete URLs\<close>

lemma plain_urls:
  "\<not> substring_in ''vm.tiktok.com'' url_video \<and> \<not> substring_in ''vt.tiktok.com'' url_video"
  "\<not> substring_in ''vm.tiktok.com'' url_photo \<and> \<not> substring_in ''vt.tiktok.com'' url_photo"
  "\<not> substring_in ''vm.tiktok.com'' url_photo_no_handle \<and>
   \<not> substring_in ''vt.tiktok.com'' url_photo_no_handle"
  "\<not> substring_in ''vm.tiktok.com'' url_video_no_handle \<and>
   \<not> substring_in ''vt.tiktok.com'' url_video_no_handle"
  "\<not> substring_in ''vm.tiktok.com'' url_short_id \<and> \<not> substring_in ''vt.tiktok.com'' url_short_id"
  "\<not> substring_in ''vm.tiktok.com'' url_item_id \<and> \<not> substring_in ''vt.tiktok.com'' url_item_id"
  "\<not> substring_in ''vm.tiktok.com'' url_bare_digits \<and>
   \<not> substring_in ''vt.tiktok.com'' url_bare_digits"
  "\<not> substring_in ''vm.tiktok.com'' url_userinfo \<and> \<not> substring_in ''vt.tiktok.com'' url_userinfo"
  "\<not> substring_in ''vm.tiktok.com'' url_two_paths \<and> \<not> substring_in ''vt.tiktok.com'' url_two_paths"
  by code_simp+

lemma short_url_is_short: "substring_in ''vm.tiktok.com'' url_short"
  by code_simp

lemma patterns_url_video:
  "username_search url_video = Some ''@someuser''"
  "content_type_search url_video = Some (''video'', ''7123456789012345678'')"
  by code_simp+

lemma patterns_url_photo:
  "username_search url_photo = Some ''@someuser''"
  "content_type_search url_photo = Some (''photo'', ''7123456789012345678'')"
  by code_simp+

lemma patterns_url_photo_no_handle:
  "username_search url_photo_no_handle = None"
  "content_type_search url_photo_no_handle = Some (''photo'', ''7123456789012345678'')"
  "alt_video_id_search url_photo_no_handle = Some ''7123456789012345678''"
  by code_simp+

lemma patterns_url_video_no_handle:
  "username_search url_video_no_handle = None"
  "content_type_search url_video_no_handle = Some (''video'', ''7123456789012345678'')"
  "alt_video_id_search url_video_no_handle = Some ''7123456789012345678''"
  by code_simp+

lemma patterns_url_short_id:
  "username_search url_short_id = None"
  "content_type_search url_short_id = Some (''video'', ''123'')"
  "alt_video_id_search url_short_id = None"
  by code_simp+

lemma patterns_url_item_id:
  "username_search url_item_id = None"
  "content_type_search url_item_id = None"
  "alt_video_id_search ''https://www.tiktok.com/share?item_id'' = None"
  by code_simp+

lemma patterns_url_bare_digits:
  "username_search url_bare_digits = None"
  "content_type_search url_bare_digits = None"
  "alt_video_id_search url_bare_digits = None"
  by code_simp+

lemma patterns_url_userinfo:
  "username_search url_userinfo = Some ''@www.tiktok.com''"
  "content_type_search url_userinfo = Some (''video'', ''7123456789012345678'')"
  by code_simp+

lemma patterns_url_two_paths:
  "username_search url_two_paths = Some ''@someuser''"
  "content_type_search url_two_paths = Some (''photo'', ''1'')"
  by code_simp+

lemma patterns_prefix:
  "username_search ''https://www.tiktok.com/'' = None"
  "content_type_search ''https://www.tiktok.com/'' = None"
  by code_simp+

lemma extract_plain:
  assumes "\<not> substring_in ''vm.tiktok.com'' url \<and> \<not> substring_in ''vt.tiktok.com'' url"
  shows "extract_video_id g w url tr = match_patterns g url tr"
  using assms by (simp add: extract_after_redirect[OF follow_redirect_plain])

lemma extract_url_video:
  "extract_video_id g w url_video tr = (Inr (''@someuser'', ''7123456789012345678'', ''video''), tr)"
  by (simp add: extract_plain[OF plain_urls(1)] match_primary[OF patterns_url_video])

lemma extract_url_photo:
  "extract_video_id g w url_photo tr = (Inr (''@someuser'', ''7123456789012345678'', ''photo''), tr)"
  by (simp add: extract_plain[OF plain_urls(2)] match_primary[OF patterns_url_photo])

subsection \<open>What a download method returns\<close>

lemma returns_onlyD:
  "returns_only m P \<Longrightarrow> m tr = (Inr x, tr') \<Longrightarrow> P x"
  by (auto simp: returns_only_def split: sum.splits dest!: spec[of _ tr])

lemma returns_only_ret: "P x \<Longrightarrow> returns_only (ret x) P"
  by (simp add: returns_only_def ret_def)

lemma returns_only_raise: "returns_only (raise e) P"
  by (simp add: returns_only_def raise_def)

lemma returns_only_bnd:
  assumes "\<And>x. returns_only (f x) P"
  shows "returns_only (bnd m f) P"
  unfolding returns_only_def
proof
  fix tr
  obtain r tr1 where m: "m tr = (r, tr1)" by (cases "m tr")
  show "case fst (bnd m f tr) of Inl e \<Rightarrow> True | Inr x \<Rightarrow> P x"
  proof (cases r)
    case (Inl e)
    with m show ?thesis by (simp add: bnd_def)
  next
    case (Inr x)
    with m assms[of x] show ?thesis
      by (simp add: bnd_def returns_only_def)
  qed
qed

lemma returns_only_thn: "returns_only k P \<Longrightarrow> returns_only (thn m k) P"
  by (simp add: thn_def returns_only_bnd)

text \<open>A guard that raises: what follows it runs only where the guard is false.\<close>

lemma returns_only_guard:
  assumes "\<not> b \<Longrightarrow> returns_only k P"
  shows "returns_only (thn (py_if b (thn (logger g l) (raise e))) k) P"
proof (cases b)
  case False
  with assms show ?thesis by (simp add: returns_only_thn)
next
  case True
  then show ?thesis
    by (auto simp: returns_only_def logger_def comp_defs split: sum.splits)
qed

lemma method_handler_raises: "\<exists>e'. fst (method_handler g v e tr) = Inl e'"
  by (auto simp: method_handler_def logger_def comp_defs)

text \<open>The shape the three download methods share: enter, then a \<open>try\<close> around
  \<open>extract_video_id\<close> and all that follows it, closed by \<open>method_handler\<close>. A result comes
  from the body, never from the handler.\<close>

lemma method_success:
  assumes "thn (enter name) (try_except (bnd m f) (method_handler g v)) tr = (Inr r, tr')"
    and "\<And>x. returns_only (f x) (P x)"
  shows "\<exists>x tr1. m (tr @ [Invoke name]) = (Inr x, tr1) \<and> P x r"
proof -
  let ?tr0 = "tr @ [Invoke name]"
  have run: "try_except (bnd m f) (method_handler g v) ?tr0 = (Inr r, tr')"
    using assms(1) by (simp add: thn_def bnd_def enter_def)
  obtain b tr2 where b: "bnd m f ?tr0 = (b, tr2)" by (cases "bnd m f ?tr0")
  have body: "bnd m f ?tr0 = (Inr r, tr')"
  proof (cases b)
    case (Inr x)
    with b run show ?thesis by (simp add: try_except_def)
  next
    case (Inl e)
    with b run have "method_handler g v e tr2 = (Inr r, tr')"
      by (simp add: try_except_def)
    with method_handler_raises[of g v e tr2] show ?thesis by simp
  qed
  obtain a tr1 where a: "m ?tr0 = (a, tr1)" by (cases "m ?tr0")
  show ?thesis
  proof (cases a)
    case (Inl e)
    with a body show ?thesis by (simp add: bnd_def)
  next
    case (Inr x)
    with a body have "f x tr1 = (Inr r, tr')" by (simp add: bnd_def)
    with assms(2)[of x] have "P x r" by (rule returns_onlyD)
    with a Inr show ?thesis by auto
  qed
qed

text \<open>The header and the media type of a result built for the video id \<open>video_id\<close>.\<close>

lemmas returns_only_intros =
  returns_only_ret returns_only_raise returns_only_bnd returns_only_thn

lemma download_v1_success:
  assumes "download_v1 g w url tr = (Inr r, tr')"
  shows \<open>\<exists>x tr1. extract_video_id g w url (tr @ [Invoke ''download_v1'']) = (Inr x, tr1) \<and>
     (case x of (username, video_id, content_type) \<Rightarrow>
        content_type = ''video'' \<and> media_type r = ''video/mp4'' \<and>
        map_of (response_headers r) ''Content-Disposition''
          = Some (''attachment; filename="'' @ (''tiktok_'' @ video_id @ ''.mp4'') @ ''"''))\<close>
  using assms unfolding download_v1_def
  apply (rule method_success)
  apply (simp only: split_paired_all prod.case)
  apply (rule returns_only_guard)
  apply (auto simp: Let_def intro!: returns_only_intros)
  done

lemma download_v2_success:
  assumes "download_v2 g w url tr = (Inr r, tr')"
  shows \<open>\<exists>x tr1. extract_video_id g w url (tr @ [Invoke ''download_v2'']) = (Inr x, tr1) \<and>
     (case x of (username, video_id, content_type) \<Rightarrow>
        content_type = ''video'' \<and> media_type r = ''video/mp4'' \<and>
        map_of (response_headers r) ''Content-Disposition''
          = Some (''attachment; filename="'' @ (''tiktok_'' @ video_id @ ''.mp4'') @ ''"''))\<close>
  using assms unfolding download_v2_def
  apply (rule method_success)
  apply (simp only: split_paired_all prod.case)
  apply (rule returns_only_guard)
  apply (auto simp: Let_def intro!: returns_only_intros)
  done

lemma download_v3_success:
  assumes "download_v3 g w url tr = (Inr r, tr')"
  shows \<open>\<exists>x tr1. extract_video_id g w url (tr @ [Invoke ''download_v3'']) = (Inr x, tr1) \<and>
     (case x of (username, video_id, content_type) \<Rightarrow>
        content_type = ''video'' \<and> media_type r = ''video/mp4'' \<and>
        map_of (response_headers r) ''Content-Disposition''
          = Some (''attachment; filename="'' @ (''tiktok_'' @ video_id @ ''.mp4'') @ ''"''))\<close>
  using assms unfolding download_v3_def
  apply (rule method_success)
  apply (simp only: split_paired_all prod.case)
  apply (rule returns_only_guard)
  apply (auto simp: Let_def intro!: returns_only_intros)
  done


section \<open>The claims\<close>

subsection \<open>C1: no logger, no download\<close>

text \<open>
  Claim C1. The name \<open>logger\<close> is used but never defined or imported in the module.
  Every path through \<open>download_v1\<close>, \<open>download_v2\<close> and \<open>download_v3\<close>, and through the
  \<open>except\<close> clause of the loop in \<open>download_video\<close>, reaches a call to \<open>logger\<close> before it
  completes. So for every URL, and whatever the network answers, each download method
  raises \<open>NameError\<close>, and \<open>download_video\<close> raises \<open>NameError\<close> too: the endpoint never
  returns a \<open>StreamingResponse\<close>.
\<close>

theorem every_download_raises_NameError:
  "''logger'' \<notin> set module_globals \<and>
   (\<forall>w url tr.
      fst (download_v1 module_globals w url tr) = Inl (NameError ''logger'') \<and>
      fst (download_v2 module_globals w url tr) = Inl (NameError ''logger'') \<and>
      fst (download_v3 module_globals w url tr) = Inl (NameError ''logger'') \<and>
      fst (download_video module_globals w url tr) = Inl (NameError ''logger''))"
  using logger_not_in_module
  by (simp add: download_v1_unbound download_v2_unbound download_v3_unbound
      download_video_unbound)

subsection \<open>C5: photo content\<close>

text \<open>
  Claim C5. For every URL whose extracted content type is photo, each of the three
  download methods rejects the request as unsupported content before it issues any
  request of its handshake. The module does not: at \<open>url_photo\<close> the statement that is
  to log the rejection (lines 155, 267 and 387) raises \<open>NameError\<close>, and so does the
  \<open>except\<close> clause that catches it. No request is issued, as the claim says, but the
  caller gets \<open>NameError\<close> where the code means to raise status 400.
\<close>

theorem photo_rejection_raises_NameError:
  "\<forall>w. download_v1 module_globals w url_photo []
         = (Inl (NameError ''logger''), [Invoke ''download_v1'']) \<and>
       download_v2 module_globals w url_photo []
         = (Inl (NameError ''logger''), [Invoke ''download_v2'']) \<and>
       download_v3 module_globals w url_photo []
         = (Inl (NameError ''logger''), [Invoke ''download_v3''])"
  using logger_not_in_module
  by (simp add: download_v1_def download_v2_def download_v3_def extract_url_photo
      thn_logger_unbound method_handler_unbound logger_unbound comp_defs)

text \<open>What the code means to do, and does once a logger exists: status 400 and no request
  beyond what \<open>extract_video_id\<close> itself issued.\<close>

lemma photo_rejected_with_logger:
  assumes "''logger'' \<in> set g"
    and "extract_video_id g w url (tr @ [Invoke name]) = (Inr (username, video_id, content_type), tr')"
    and "content_type \<noteq> ''video''"
    and "(name, m) \<in> {(''download_v1'', download_v1 g w), (''download_v2'', download_v2 g w),
                      (''download_v3'', download_v3 g w)}"
  shows "m url tr = (Inl (HTTPException 400 ''Only video downloads are supported''), tr')"
  using assms
  by (auto simp: download_v1_def download_v2_def download_v3_def method_handler_def
      thn_logger_bound logger_bound comp_defs)

subsection \<open>C6: one method after the other\<close>

text \<open>
  Claim C6. \<open>download_video\<close> runs the download methods one after the other in a fixed
  order, returns at the first that succeeds, and on a failure records it and goes on to
  the next method. The module does not go on: for every URL and every answer of the
  network the first method, \<open>download_v2\<close>, raises \<open>NameError\<close>, the \<open>except\<close> clause of
  line 67 raises \<open>NameError\<close> before it records anything, and \<open>download_v3\<close> and
  \<open>download_v1\<close> are never entered.
\<close>

theorem download_video_stops_at_first_failure:
  "\<forall>w url.
     fst (download_video module_globals w url []) = Inl (NameError ''logger'') \<and>
     invoked (snd (download_video module_globals w url [])) = [''download_v2'']"
proof (intro allI)
  fix w url
  obtain evs where "snd (download_v2 module_globals w url []) = [] @ Invoke ''download_v2'' # evs"
    and "invoked evs = []"
    using download_v2_trace[of module_globals w url "[]"] by blast
  then show "fst (download_video module_globals w url []) = Inl (NameError ''logger'') \<and>
     invoked (snd (download_video module_globals w url [])) = [''download_v2'']"
    by (simp add: download_video_unbound[OF logger_not_in_module])
qed

text \<open>The part of the claim that the loop does keep, whatever the namespace: a method
  that returns ends the loop, and the methods after it are not run.\<close>

lemma for_methods_first_success:
  "m url tr = (Inr r, tr') \<Longrightarrow> for_methods g url (m # ms) last_error tr = (Inr (Inl r), tr')"
  by (simp add: comp_defs)

lemma download_video_first_success:
  assumes "download_v2 g w url tr = (Inr r, tr')"
  shows "download_video g w url tr = (Inr r, tr')"
proof -
  have "for_methods g url (methods g w) None tr = (Inr (Inl r), tr')"
    unfolding methods_def by (rule for_methods_first_success[where m="download_v2 g w", OF assms])
  then show ?thesis
    by (simp add: download_video_def bnd_def ret_def)
qed

subsection \<open>C10: photo content without a handle\<close>

text \<open>
  Claim C10. For a URL whose content descriptor is \<open>/photo/\<close> with at least 15 digits and
  that holds no handle, \<open>extract_video_id\<close> takes the branch of the alternative pattern
  and returns content type \<open>video\<close> with the handle \<open>@user\<close>, so the content passes the
  check for photos. The module does not get that far: at \<open>url_photo_no_handle\<close> line 104
  raises \<open>NameError\<close> before the alternative pattern is tried, and a download method
  called with this URL issues no request. With a logger in the namespace the same
  function returns what the claim says.
\<close>

theorem photo_without_handle_raises_NameError:
  "\<forall>w. extract_video_id module_globals w url_photo_no_handle [] = (Inl (NameError ''logger''), []) \<and>
       download_v1 module_globals w url_photo_no_handle []
         = (Inl (NameError ''logger''), [Invoke ''download_v1'']) \<and>
       extract_video_id globals_with_logger w url_photo_no_handle []
         = (Inr (''@user'', ''7123456789012345678'', ''video''), [])"
proof (intro allI conjI)
  fix w
  have a: "\<And>tr. extract_video_id module_globals w url_photo_no_handle tr
             = (Inl (NameError ''logger''), tr)"
    by (simp add: extract_plain[OF plain_urls(3)] match_unbound[OF logger_not_in_module]
        patterns_url_photo_no_handle)
  show "extract_video_id module_globals w url_photo_no_handle [] = (Inl (NameError ''logger''), [])"
    by (rule a)
  show "download_v1 module_globals w url_photo_no_handle []
         = (Inl (NameError ''logger''), [Invoke ''download_v1''])"
    using logger_not_in_module
    by (simp add: download_v1_def a method_handler_unbound comp_defs)
  show "extract_video_id globals_with_logger w url_photo_no_handle []
         = (Inr (''@user'', ''7123456789012345678'', ''video''), [])"
    using match_fallback[OF logger_in_globals_with_logger _ patterns_url_photo_no_handle(3), of "[]"]
    by (simp add: extract_plain[OF plain_urls(3)] patterns_url_photo_no_handle)
qed

subsection \<open>C7: the standard URL\<close>

text \<open>
  Counterexample to claim C7 as it is stated. Both URLs end in
  \<open>/@someuser/video/7123456789012345678\<close>. In the first the host is preceded by user
  information, and the handle returned is the host name; in the second another content
  descriptor comes first, and the id and the type returned are its.
\<close>

theorem first_match_wins_counterexample:
  "url_userinfo = ''https://guest@www.tiktok.com/'' @ ''@someuser'' @ ''/video/'' @ ''7123456789012345678'' \<and>
   extract_video_id module_globals (world_status 200 200 200) url_userinfo []
     = (Inr (''@www.tiktok.com'', ''7123456789012345678'', ''video''), []) \<and>
   url_two_paths = ''https://www.tiktok.com/photo/1/'' @ ''@someuser'' @ ''/video/'' @ ''7123456789012345678'' \<and>
   extract_video_id module_globals (world_status 200 200 200) url_two_paths []
     = (Inr (''@someuser'', ''1'', ''photo''), [])"
  by (simp add: extract_plain[OF plain_urls(8)] extract_plain[OF plain_urls(9)]
      match_primary[OF patterns_url_userinfo] match_primary[OF patterns_url_two_paths])
     (simp add: url_userinfo_def url_two_paths_def)

text \<open>
  Claim C7, amended. Take a URL of characters below U+0100, as \<open>follow_redirect\<close>
  leaves it (the URL itself, or where a short link redirects to). If it is \<open>pre @handle/video/digits rest\<close>, where the
  handle is a non-empty run of handle characters, the digits are at least 15 and no
  digit follows them, and \<open>pre\<close> holds no match of the handle pattern and none of the
  content pattern, then \<open>extract_video_id\<close> returns exactly \<open>@handle\<close>, exactly the digits,
  and the content type \<open>video\<close>. This holds whatever the namespace: no logger is called on
  the way.
\<close>

theorem standard_url_extraction:
  assumes "follow_redirect g w url0 tr = (Inr url, tr')"
    and "url = pre @ CHR ''@'' # h @ ''/video/'' @ ds @ rest"
    and "username_search pre = None" and "content_type_search pre = None"
    and "h \<noteq> []" and "\<forall>c\<in>set h. is_handle_char c"
    and "15 \<le> length ds" and "\<forall>c\<in>set ds. is_digit c"
    and "rest = [] \<or> \<not> is_digit (hd rest)"
  shows "extract_video_id g w url0 tr = (Inr (CHR ''@'' # h, ds, ''video''), tr')"
proof -
  have "username_search url = username_search (CHR ''@'' # h @ ''/video/'' @ ds @ rest)"
    unfolding assms(2)
    by (rule username_search_skip[OF assms(3)]) (simp add: at_not_handle)
  also have "\<dots> = Some (CHR ''@'' # h)"
    by (rule username_search_here[OF assms(5,6)]) (simp add: slash_not_handle)
  finally have u: "username_search url = Some (CHR ''@'' # h)" .
  have no_slash: "CHR ''/'' \<notin> set h"
    using assms(6) slash_not_handle by auto
  have ds: "ds \<noteq> []"
    using assms(7) by auto
  have "content_type_search url = content_type_search (CHR ''@'' # h @ ''/video/'' @ ds @ rest)"
    unfolding assms(2)
    by (rule content_type_search_skip[OF _ _ _ assms(4)]) (simp_all add: is_digit_def)
  also have "\<dots> = content_type_search (h @ ''/video/'' @ ds @ rest)"
    by (simp add: content_type_at_first)
  also have "\<dots> = content_type_search (''/video/'' @ ds @ rest)"
    by (rule content_type_search_no_slash[OF no_slash])
  also have "\<dots> = Some (''video'', ds)"
    by (rule content_type_here[OF ds assms(8,9)])
  finally have c: "content_type_search url = Some (''video'', ds)" .
  show ?thesis
    by (simp add: extract_after_redirect[OF assms(1)] match_primary[OF u c])
qed

lemma short_link_redirect:
  "follow_redirect g (world_sites drift) url_short tr = (Inr url_video, tr @ [HttpGet url_short])"
  using short_url_is_short
  by (simp add: follow_redirect_def world_sites_def page_def comp_defs)

theorem standard_url_extraction_witness:
  "follow_redirect module_globals (world_sites False) url_short []
     = (Inr url_video, [HttpGet url_short]) \<and>
   url_video = ''https://www.tiktok.com/'' @ CHR ''@'' # ''someuser'' @ ''/video/''
                 @ ''7123456789012345678'' @ [] \<and>
   extract_video_id module_globals (world_sites False) url_short []
     = (Inr (''@someuser'', ''7123456789012345678'', ''video''), [HttpGet url_short])"
proof -
  have r: "follow_redirect module_globals (world_sites False) url_short []
             = (Inr url_video, [HttpGet url_short])"
    using short_link_redirect[of module_globals False "[]"] by simp
  have shape: "url_video = ''https://www.tiktok.com/'' @ CHR ''@'' # ''someuser'' @ ''/video/''
                 @ ''7123456789012345678'' @ []"
    by (simp add: url_video_def)
  have "extract_video_id module_globals (world_sites False) url_short []
          = (Inr (CHR ''@'' # ''someuser'', ''7123456789012345678'', ''video''), [HttpGet url_short])"
    by (rule standard_url_extraction[OF r shape patterns_prefix])
       (simp_all add: is_handle_char_def is_digit_def)
  with r shape show ?thesis by simp
qed

subsection \<open>C3: the alternative pattern\<close>

text \<open>
  Counterexample to claim C3 as it is stated. \<open>url_bare_digits\<close> matches neither primary
  pattern and holds a run of 19 digits, but the run follows the letter \<open>v\<close>. The
  alternative pattern looks for digits after \<open>/\<close> or \<open>=\<close> only, so extraction fails: with
  status 400 once a logger exists, and with \<open>NameError\<close> in the module as it is.
\<close>

theorem digits_need_separator_counterexample:
  "url_bare_digits = ''https://www.tiktok.com/v'' @ ''7123456789012345678'' \<and>
   username_search url_bare_digits = None \<and>
   content_type_search url_bare_digits = None \<and>
   extract_video_id globals_with_logger (world_status 200 200 200) url_bare_digits []
     = (Inl (HTTPException 400 ''Could not extract username from URL''), []) \<and>
   extract_video_id module_globals (world_status 200 200 200) url_bare_digits []
     = (Inl (NameError ''logger''), [])"
  by (simp add: extract_plain[OF plain_urls(7)] patterns_url_bare_digits
      match_no_username[OF logger_in_globals_with_logger patterns_url_bare_digits(1,3)]
      match_unbound[OF logger_not_in_module])
     (simp add: url_bare_digits_def)

text \<open>
  Claim C3, amended. Take a URL of characters below U+0100, as \<open>follow_redirect\<close>
  leaves it, on which the handle pattern or the content pattern fails, and in which \<open>/\<close> or \<open>=\<close> is directly followed by
  at least 15 digits. Where the calls to the logger complete, extraction does not fail:
  it returns the digits after the first such \<open>/\<close> or \<open>=\<close> as the id, the content type
  \<open>video\<close>, and the handle that the handle pattern found, or \<open>@user\<close> when it found none.
\<close>

theorem fallback_after_separator:
  assumes "''logger'' \<in> set g"
    and "follow_redirect g w url0 tr = (Inr url, tr')"
    and "username_search url = None \<or> content_type_search url = None"
    and "url = pre @ c # ds @ rest"
    and "c = CHR ''/'' \<or> c = CHR ''=''"
    and "alt_video_id_search pre = None"
    and "15 \<le> length ds" and "\<forall>x\<in>set ds. is_digit x"
    and "rest = [] \<or> \<not> is_digit (hd rest)"
  shows "extract_video_id g w url0 tr
           = (Inr (case username_search url of Some u \<Rightarrow> u | None \<Rightarrow> ''@user'', ds, ''video''), tr')"
proof -
  have sep: "\<not> is_digit c"
    using assms(5) by (auto simp: is_digit_def)
  have "alt_video_id_search url = alt_video_id_search (c # ds @ rest)"
    unfolding assms(4)
    by (rule alt_search_skip[OF assms(6)]) (simp add: sep)
  also have "\<dots> = Some ds"
    by (rule alt_search_here[OF assms(5,7,8,9)])
  finally have a: "alt_video_id_search url = Some ds" .
  show ?thesis
    by (simp add: extract_after_redirect[OF assms(2)] match_fallback[OF assms(1,3) a])
qed

theorem fallback_after_separator_witness:
  "url_item_id = ''https://www.tiktok.com/share?item_id'' @ CHR ''='' # ''7123456789012345678'' @ [] \<and>
   extract_video_id globals_with_logger (world_status 200 200 200) url_item_id []
     = (Inr (''@user'', ''7123456789012345678'', ''video''), [])"
proof -
  have shape: "url_item_id
      = ''https://www.tiktok.com/share?item_id'' @ CHR ''='' # ''7123456789012345678'' @ []"
    by (simp add: url_item_id_def)
  have "extract_video_id globals_with_logger (world_status 200 200 200) url_item_id []
          = (Inr (case username_search url_item_id of Some u \<Rightarrow> u | None \<Rightarrow> ''@user'',
                  ''7123456789012345678'', ''video''), [])"
    by (rule fallback_after_separator[OF logger_in_globals_with_logger
          follow_redirect_plain _ shape _ patterns_url_item_id(3)])
       (simp_all add: plain_urls patterns_url_item_id is_digit_def)
  with shape show ?thesis by (simp add: patterns_url_item_id)
qed

subsection \<open>C4: a content id without a handle\<close>

text \<open>
  Counterexample to claim C4 as it is stated. On \<open>url_video_no_handle\<close> the content
  pattern matches and the handle pattern does not. Extraction does not fail with a
  malformed-URL error: the alternative pattern finds the same digits after \<open>/\<close>, and the
  function returns the placeholder handle. (In the module as it is, the call to the logger
  on line 104 raises \<open>NameError\<close> instead.)
\<close>

theorem placeholder_handle_counterexample:
  "username_search url_video_no_handle = None \<and>
   content_type_search url_video_no_handle = Some (''video'', ''7123456789012345678'') \<and>
   extract_video_id globals_with_logger (world_status 200 200 200) url_video_no_handle []
     = (Inr (''@user'', ''7123456789012345678'', ''video''), []) \<and>
   extract_video_id module_globals (world_status 200 200 200) url_video_no_handle []
     = (Inl (NameError ''logger''), [])"
  using match_fallback[OF logger_in_globals_with_logger _ patterns_url_video_no_handle(3), of "[]"]
  by (simp add: extract_plain[OF plain_urls(4)] patterns_url_video_no_handle
      match_unbound[OF logger_not_in_module])

text \<open>
  Claim C4, amended. Take a URL of characters below U+0100, as \<open>follow_redirect\<close>
  leaves it, on which the content pattern matches and the handle pattern does not, and let the calls to the logger
  complete. If no \<open>/\<close> or \<open>=\<close> in the URL is followed by at least 15 digits, extraction
  fails with status 400, \<open>Could not extract username from URL\<close>. If the matched content id
  has at least 15 digits, extraction does not fail: it returns the handle \<open>@user\<close>, the
  content type \<open>video\<close> and the digits the alternative pattern found.
\<close>

theorem missing_handle_outcome:
  assumes "''logger'' \<in> set g"
    and "follow_redirect g w url0 tr = (Inr url, tr')"
    and "username_search url = None"
    and "content_type_search url = Some (content_type, ds)"
  shows "(alt_video_id_search url = None \<longrightarrow>
            extract_video_id g w url0 tr
              = (Inl (HTTPException 400 ''Could not extract username from URL''), tr')) \<and>
         (15 \<le> length ds \<longrightarrow>
            (\<exists>video_id. alt_video_id_search url = Some video_id \<and>
               extract_video_id g w url0 tr = (Inr (''@user'', video_id, ''video''), tr')))"
proof (intro conjI impI)
  assume "alt_video_id_search url = None"
  then show "extract_video_id g w url0 tr
              = (Inl (HTTPException 400 ''Could not extract username from URL''), tr')"
    by (simp add: extract_after_redirect[OF assms(2)] match_no_username[OF assms(1,3)])
next
  assume "15 \<le> length ds"
  then obtain v where v: "alt_video_id_search url = Some v"
    using content_match_gives_alt[OF assms(4)] by blast
  have "match_patterns g url tr' = (Inr (''@user'', v, ''video''), tr')"
    using match_fallback[OF assms(1) _ v, of tr'] assms(3) by simp
  with v show "\<exists>video_id. alt_video_id_search url = Some video_id \<and>
      extract_video_id g w url0 tr = (Inr (''@user'', video_id, ''video''), tr')"
    by (simp add: extract_after_redirect[OF assms(2)])
qed

theorem missing_handle_outcome_witness:
  "extract_video_id globals_with_logger (world_status 200 200 200) url_short_id []
     = (Inl (HTTPException 400 ''Could not extract username from URL''), []) \<and>
   extract_video_id globals_with_logger (world_status 200 200 200) url_video_no_handle []
     = (Inr (''@user'', ''7123456789012345678'', ''video''), [])"
proof -
  have r1: "follow_redirect globals_with_logger (world_status 200 200 200) url_short_id []
              = (Inr url_short_id, [])"
    by (rule follow_redirect_plain) (simp_all add: plain_urls)
  have r2: "follow_redirect globals_with_logger (world_status 200 200 200) url_video_no_handle []
              = (Inr url_video_no_handle, [])"
    by (rule follow_redirect_plain) (simp_all add: plain_urls)
  show ?thesis
    using missing_handle_outcome[OF logger_in_globals_with_logger r1 patterns_url_short_id(1,2)]
      missing_handle_outcome[OF logger_in_globals_with_logger r2 patterns_url_video_no_handle(1,2)]
    by (simp add: patterns_url_short_id patterns_url_video_no_handle)
qed

subsection \<open>C8: the suggested file name\<close>

text \<open>
  Claim C8. Whenever one of the three download methods returns a result, the media type of
  the result is \<open>video/mp4\<close> and its \<open>Content-Disposition\<close> header is
  \<open>attachment; filename="F"\<close> with \<open>F\<close> the concatenation of \<open>tiktok_\<close>, the video id that
  \<open>extract_video_id\<close> returned to that method, and \<open>.mp4\<close>. (A method returns a result
  only where a logger is bound; see C1.)
\<close>

theorem suggested_filename:
  assumes "(name, m) \<in> {(''download_v1'', download_v1 g w), (''download_v2'', download_v2 g w),
                       (''download_v3'', download_v3 g w)}"
    and "m url tr = (Inr r, tr')"
  shows \<open>\<exists>username video_id tr1.
           extract_video_id g w url (tr @ [Invoke name]) = (Inr (username, video_id, ''video''), tr1) \<and>
           media_type r = ''video/mp4'' \<and>
           map_of (response_headers r) ''Content-Disposition''
             = Some (''attachment; filename="'' @ (''tiktok_'' @ video_id @ ''.mp4'') @ ''"'')\<close>
proof -
  have \<open>\<exists>x tr1. extract_video_id g w url (tr @ [Invoke name]) = (Inr x, tr1) \<and>
     (case x of (username, video_id, content_type) \<Rightarrow>
        content_type = ''video'' \<and> media_type r = ''video/mp4'' \<and>
        map_of (response_headers r) ''Content-Disposition''
          = Some (''attachment; filename="'' @ (''tiktok_'' @ video_id @ ''.mp4'') @ ''"''))\<close>
    using assms download_v1_success[of g w url tr r tr'] download_v2_success[of g w url tr r tr']
      download_v3_success[of g w url tr r tr']
    by auto
  then show ?thesis by (auto split: prod.splits)
qed

lemma sites_download_v1:
  \<open>download_v1 globals_with_logger (world_sites False) url_video []
     = (Inr \<lparr> body = ''MP4DATA'', media_type = ''video/mp4'',
              response_headers =
                [(''Content-Disposition'', ''attachment; filename="tiktok_7123456789012345678.mp4"''),
                 (''Content-Length'', ''0''), (''Accept-Ranges'', ''bytes'')] \<rparr>,
        [Invoke ''download_v1'', HttpGet ''https://tmate.cc/'',
         HttpPost ''https://tmate.cc/action'' [(''url'', url_video), (''token'', ''tok'')],
         HttpGet media_link])\<close>
  by code_simp

lemma sites_download_v2:
  \<open>download_v2 globals_with_logger (world_sites False) url_video []
     = (Inr \<lparr> body = ''MP4DATA'', media_type = ''video/mp4'',
              response_headers =
                [(''Content-Disposition'', ''attachment; filename="tiktok_7123456789012345678.mp4"'')] \<rparr>,
        [Invoke ''download_v2'', HttpGet ''https://musicaldown.com/en'',
         HttpPost ''https://musicaldown.com/download''
           [(''link'', url_video), (''key'', ''value''), (''verify'', ''1'')],
         HttpGet media_link])\<close>
  by code_simp

lemma sites_download_v3:
  \<open>download_v3 globals_with_logger (world_sites False) url_video []
     = (Inr \<lparr> body = ''MP4DATA'', media_type = ''video/mp4'',
              response_headers =
                [(''Content-Disposition'', ''attachment; filename="tiktok_7123456789012345678.mp4"'')] \<rparr>,
        [Invoke ''download_v3'', HttpGet ''https://tiktokio.com/'',
         HttpPost ''https://tiktokio.com/api/v1/tk-htmx'' [(''prefix'', ''pre''), (''vid'', url_video)],
         HttpGet media_link])\<close>
  by code_simp

theorem suggested_filename_witness:
  \<open>(\<exists>r tr'. download_v1 globals_with_logger (world_sites False) url_video [] = (Inr r, tr') \<and>
       map_of (response_headers r) ''Content-Disposition''
         = Some ''attachment; filename="tiktok_7123456789012345678.mp4"'') \<and>
    (\<exists>r tr'. download_v2 globals_with_logger (world_sites False) url_video [] = (Inr r, tr') \<and>
       map_of (response_headers r) ''Content-Disposition''
         = Some ''attachment; filename="tiktok_7123456789012345678.mp4"'') \<and>
    (\<exists>r tr'. download_v3 globals_with_logger (world_sites False) url_video [] = (Inr r, tr') \<and>
       map_of (response_headers r) ''Content-Disposition''
         = Some ''attachment; filename="tiktok_7123456789012345678.mp4"'')\<close>
proof (intro conjI)
  let ?g = globals_with_logger and ?w = "world_sites False"
  show \<open>\<exists>r tr'. download_v1 ?g ?w url_video [] = (Inr r, tr') \<and>
       map_of (response_headers r) ''Content-Disposition''
         = Some ''attachment; filename="tiktok_7123456789012345678.mp4"''\<close>
    using suggested_filename[of "''download_v1''" "download_v1 ?g ?w" ?g ?w url_video "[]",
        OF _ sites_download_v1]
    by (auto simp: extract_url_video sites_download_v1)
  show \<open>\<exists>r tr'. download_v2 ?g ?w url_video [] = (Inr r, tr') \<and>
       map_of (response_headers r) ''Content-Disposition''
         = Some ''attachment; filename="tiktok_7123456789012345678.mp4"''\<close>
    using suggested_filename[of "''download_v2''" "download_v2 ?g ?w" ?g ?w url_video "[]",
        OF _ sites_download_v2]
    by (auto simp: extract_url_video sites_download_v2)
  show \<open>\<exists>r tr'. download_v3 ?g ?w url_video [] = (Inr r, tr') \<and>
       map_of (response_headers r) ''Content-Disposition''
         = Some ''attachment; filename="tiktok_7123456789012345678.mp4"''\<close>
    using suggested_filename[of "''download_v3''" "download_v3 ?g ?w" ?g ?w url_video "[]",
        OF _ sites_download_v3]
    by (auto simp: extract_url_video sites_download_v3)
qed

subsection \<open>C2: every method fails\<close>

text \<open>With a logger, whatever a download method raises is an \<open>HTTPException\<close>: its
  \<open>except\<close> clause passes one on and wraps anything else.\<close>

lemma method_handler_bound:
  assumes "''logger'' \<in> set g"
  shows "method_handler g v e tr
           = (Inl (if is_http e then e
                   else HTTPException 500 (''Error downloading video ('' @ v @ ''): '' @ str_exn e)), tr)"
  using assms by (simp add: method_handler_def thn_logger_bound raise_def)

lemma method_failure_is_http:
  assumes "''logger'' \<in> set g"
    and "thn (enter name) (try_except m (method_handler g v)) tr = (Inl e, tr')"
  shows "is_http e"
proof -
  let ?tr0 = "tr @ [Invoke name]"
  have run: "try_except m (method_handler g v) ?tr0 = (Inl e, tr')"
    using assms(2) by (simp add: thn_def bnd_def enter_def)
  obtain b tr1 where b: "m ?tr0 = (b, tr1)" by (cases "m ?tr0")
  show ?thesis
  proof (cases b)
    case (Inr x)
    with b run show ?thesis by (simp add: try_except_def)
  next
    case (Inl e0)
    with b run have "method_handler g v e0 tr1 = (Inl e, tr')"
      by (simp add: try_except_def)
    then show ?thesis
      by (auto simp: method_handler_bound[OF assms(1)] split: if_splits)
  qed
qed

lemma download_failure_is_http:
  assumes "''logger'' \<in> set g"
  shows "download_v1 g w url tr = (Inl e, tr') \<Longrightarrow> is_http e"
    and "download_v2 g w url tr = (Inl e, tr') \<Longrightarrow> is_http e"
    and "download_v3 g w url tr = (Inl e, tr') \<Longrightarrow> is_http e"
  unfolding download_v1_def download_v2_def download_v3_def
  by (erule method_failure_is_http[OF assms])+

lemma for_methods_failure:
  assumes "''logger'' \<in> set g" and "m url tr = (Inl e, tr')"
  shows "for_methods g url (m # ms) last_error tr = for_methods g url ms (Some e) tr'"
  using assms by (simp add: logger_bound comp_defs)

text \<open>
  Counterexample to claim C2 as it is stated. In both worlds every landing page answers
  with an error status, so all three methods fail; the two differ in how the first
  method fails (503 or 404). \<open>download_video\<close> raises the same exception in both: the
  failure of the last method, \<open>download_v1\<close>, with its status code and its message. What
  the caller gets holds one failure, not three, and it names the site. (In the module as
  it is, \<open>download_video\<close> raises \<open>NameError\<close> after the first method.)
\<close>

theorem last_failure_only_counterexample:
  "download_video globals_with_logger (world_status 503 503 403) url_video []
     = (Inl (HTTPException 403 ''tmate.cc initial request failed with status 403''),
        [Invoke ''download_v2'', HttpGet ''https://musicaldown.com/en'',
         Invoke ''download_v3'', HttpGet ''https://tiktokio.com/'',
         Invoke ''download_v1'', HttpGet ''https://tmate.cc/'']) \<and>
   fst (download_video globals_with_logger (world_status 404 503 403) url_video [])
     = Inl (HTTPException 403 ''tmate.cc initial request failed with status 403'') \<and>
   fst (download_v2 globals_with_logger (world_status 503 503 403) url_video [])
     = Inl (HTTPException 503 ''musicaldown.com initial request failed with status 503'') \<and>
   fst (download_v2 globals_with_logger (world_status 404 503 403) url_video [])
     = Inl (HTTPException 404 ''musicaldown.com initial request failed with status 404'') \<and>
   download_video module_globals (world_status 503 503 403) url_video []
     = (Inl (NameError ''logger''), [Invoke ''download_v2''])"
  by code_simp

text \<open>
  Claim C2, amended. Let the calls to the logger complete, and let all three methods
  fail when they are run one after the other in the order \<open>download_v2\<close>, \<open>download_v3\<close>,
  \<open>download_v1\<close>. Then \<open>download_video\<close> has run exactly these three, in this order, and
  raises to its caller the one exception of the last of them, which is an
  \<open>HTTPException\<close>. The failures of the first two are not part of the outcome.
\<close>

theorem all_methods_fail:
  assumes "''logger'' \<in> set g"
    and "download_v2 g w url tr = (Inl e2, tr2)"
    and "download_v3 g w url tr2 = (Inl e3, tr3)"
    and "download_v1 g w url tr3 = (Inl e1, tr4)"
  shows "download_video g w url tr = (Inl e1, tr4) \<and> is_http e1 \<and>
         invoked tr4 = invoked tr @ [''download_v2'', ''download_v3'', ''download_v1'']"
proof (intro conjI)
  show http: "is_http e1"
    by (rule download_failure_is_http(1)[OF assms(1,4)])
  have "for_methods g url (methods g w) None tr
          = for_methods g url [download_v3 g w, download_v1 g w] (Some e2) tr2"
    unfolding methods_def
    by (rule for_methods_failure[where m="download_v2 g w", OF assms(1,2)])
  also have "\<dots> = for_methods g url [download_v1 g w] (Some e3) tr3"
    by (rule for_methods_failure[where m="download_v3 g w", OF assms(1,3)])
  also have "\<dots> = for_methods g url [] (Some e1) tr4"
    by (rule for_methods_failure[where m="download_v1 g w", OF assms(1,4)])
  also have "\<dots> = (Inr (Inr (Some e1)), tr4)"
    by (simp add: ret_def)
  finally have loop: "for_methods g url (methods g w) None tr = (Inr (Inr (Some e1)), tr4)" .
  obtain c d where e1: "e1 = HTTPException c d"
    using http by (cases e1) auto
  show "download_video g w url tr = (Inl e1, tr4)"
    by (simp add: download_video_def bnd_def loop thn_logger_bound[OF assms(1)] e1 raise_def)
  have "invoked tr2 = invoked tr @ [''download_v2'']"
    using download_v2_trace[of g w url tr] assms(2) by (auto simp: invoked_append)
  moreover have "invoked tr3 = invoked tr2 @ [''download_v3'']"
    using download_v3_trace[of g w url tr2] assms(3) by (auto simp: invoked_append)
  moreover have "invoked tr4 = invoked tr3 @ [''download_v1'']"
    using download_v1_trace[of g w url tr3] assms(4) by (auto simp: invoked_append)
  ultimately show "invoked tr4 = invoked tr @ [''download_v2'', ''download_v3'', ''download_v1'']"
    by simp
qed

lemma status_download_v2:
  "download_v2 globals_with_logger (world_status 503 503 403) url_video []
     = (Inl (HTTPException 503 ''musicaldown.com initial request failed with status 503''),
        [Invoke ''download_v2'', HttpGet ''https://musicaldown.com/en''])"
  by code_simp

lemma status_download_v3:
  "download_v3 globals_with_logger (world_status 503 503 403) url_video
       [Invoke ''download_v2'', HttpGet ''https://musicaldown.com/en'']
     = (Inl (HTTPException 503 ''tiktokio.com initial request failed with status 503''),
        [Invoke ''download_v2'', HttpGet ''https://musicaldown.com/en'',
         Invoke ''download_v3'', HttpGet ''https://tiktokio.com/''])"
  by code_simp

lemma status_download_v1:
  "download_v1 globals_with_logger (world_status 503 503 403) url_video
       [Invoke ''download_v2'', HttpGet ''https://musicaldown.com/en'',
        Invoke ''download_v3'', HttpGet ''https://tiktokio.com/'']
     = (Inl (HTTPException 403 ''tmate.cc initial request failed with status 403''),
        [Invoke ''download_v2'', HttpGet ''https://musicaldown.com/en'',
         Invoke ''download_v3'', HttpGet ''https://tiktokio.com/'',
         Invoke ''download_v1'', HttpGet ''https://tmate.cc/''])"
  by code_simp

theorem all_methods_fail_witness:
  "download_video globals_with_logger (world_status 503 503 403) url_video []
     = (Inl (HTTPException 403 ''tmate.cc initial request failed with status 403''),
        [Invoke ''download_v2'', HttpGet ''https://musicaldown.com/en'',
         Invoke ''download_v3'', HttpGet ''https://tiktokio.com/'',
         Invoke ''download_v1'', HttpGet ''https://tmate.cc/''])"
  using all_methods_fail[OF logger_in_globals_with_logger status_download_v2
      status_download_v3 status_download_v1]
  by simp

subsection \<open>C9: the selectors for the link\<close>

text \<open>The loop of \<open>download_v2\<close> over its three selectors, with a logger: the value is what
  the first selector with a true match gives, and what the last selector gives when none
  has one.\<close>

lemma try_selectors_bound:
  assumes "''logger'' \<in> set g"
  shows "try_selectors g w document qs link tr
           = (Inr (case find (\<lambda>q. truthy (get_first (xpath w q document))) qs of
                     Some q \<Rightarrow> get_first (xpath w q document)
                   | None \<Rightarrow> (if qs = [] then link else get_first (xpath w (last qs) document))),
              tr)"
  using assms
  by (induction qs arbitrary: link) (auto simp: thn_logger_bound ret_def split: option.splits)

lemma try_selectors_fails_iff:
  assumes "''logger'' \<in> set g" and "qs \<noteq> []"
    and "try_selectors g w document qs link tr = (Inr found, tr')"
  shows "py_not found \<longleftrightarrow> (\<forall>q\<in>set qs. \<not> truthy (get_first (xpath w q document)))"
proof (cases "find (\<lambda>q. truthy (get_first (xpath w q document))) qs")
  case None
  then have all: "\<forall>q\<in>set qs. \<not> truthy (get_first (xpath w q document))"
    by (simp add: find_None_iff)
  with None assms show ?thesis
    by (auto simp: try_selectors_bound py_not_def)
next
  case (Some q)
  then have "truthy (get_first (xpath w q document))" and "q \<in> set qs"
    by (auto simp: find_Some_iff)
  with Some assms show ?thesis
    by (auto simp: try_selectors_bound py_not_def)
qed

text \<open>
  Claim C9. Each of the three download methods tries an ordered list of two or more
  selectors for the link to the file, takes the first that matches, and fails only when
  none matches. \<open>download_v2\<close> has three selectors and \<open>download_v3\<close> two, but
  \<open>download_v1\<close> has one (line 201). In \<open>world_sites True\<close> the result pages have lost the
  markup of the site-specific selectors and still hold a link to an \<open>.mp4\<close>:
  \<open>download_v2\<close> and \<open>download_v3\<close> find it with their last selector, and \<open>download_v1\<close>
  fails with \<open>Could not find download link\<close>. (A logger is bound here; in the module as it
  is no method gets as far as its selectors.)
\<close>

theorem download_v1_has_one_selector:
  \<open>css (world_sites True) ''a[href*=".mp4"]::attr(href)'' ''result'' = [media_link] \<and>
   download_v1 globals_with_logger (world_sites True) url_video []
     = (Inl (HTTPException 500 ''Could not find download link''),
        [Invoke ''download_v1'', HttpGet ''https://tmate.cc/'',
         HttpPost ''https://tmate.cc/action'' [(''url'', url_video), (''token'', ''tok'')]]) \<and>
   map_sum id body (fst (download_v2 globals_with_logger (world_sites True) url_video []))
     = Inr ''MP4DATA'' \<and>
   map_sum id body (fst (download_v3 globals_with_logger (world_sites True) url_video []))
     = Inr ''MP4DATA'' \<and>
   fst (download_v1 module_globals (world_sites True) url_video []) = Inl (NameError ''logger'')\<close>
  by code_simp

end
